theory Spec2Isabelle
  imports Main "HOL-Library.Finite_Map" "HOL-Library.Code_Target_Numeral"
begin

section \<open>Errors, body streams and requests\<close>

text \<open>
  Go strings and byte slices are sequences of bytes; \<open>string\<close> (a list of 8-bit
  characters) models both.
\<close>

type_synonym bytes = string

datatype NumErrKind = ErrSyntax | ErrRange

text \<open>
  The error values of the program: \<open>Errorf\<close> is an error made by \<open>fmt.Errorf\<close>,
  named by its format string (the formatted arguments are not rendered), \<open>NumError\<close> is \<open>*strconv.NumError\<close> (function, input,
  kind), \<open>ExternalError\<close> is an error handed back by a collaborator (the body stream,
  the WebAuthn library, the credential store, the session store, the backend).
\<close>

datatype error =
    Errorf string
  | NumError string string NumErrKind
  | ExternalError string

text \<open>
  \<open>io.ReadCloser\<close>: the bytes still to be read, and the error the stream gives
  when it is broken. \<open>ioutil.ReadAll\<close> returns every pending byte and leaves the
  stream at its end, or returns the stream's error.
\<close>

record ReadCloser =
  pending :: bytes
  fault :: "error option"

definition NewReader :: "bytes \<Rightarrow> ReadCloser" where
  "NewReader d = \<lparr>pending = d, fault = None\<rparr>"

definition ReadAll :: "ReadCloser \<Rightarrow> (error + bytes) \<times> ReadCloser" where
  "ReadAll b =
     (case fault b of
        Some e \<Rightarrow> (Inl e, b)
      | None \<Rightarrow> (Inr (pending b), b\<lparr>pending := []\<rparr>))"

text \<open>
  \<open>*http.Request\<close>, with the fields the handlers use. \<open>Form\<close> is \<open>r.Form\<close>:
  \<open>None\<close> until the form has been parsed, then the first value of every field.
  \<open>Vars\<close> is \<open>mux.Vars(r)\<close>, the route variables.
\<close>

record Request =
  Method :: string
  Host :: string
  Cookies :: "(string \<times> string) list"
  Vars :: "string \<rightharpoonup> string"
  Form :: "(string \<rightharpoonup> string) option"
  Body :: ReadCloser

text \<open>
  \<open>r.FormValue(key)\<close> parses the form on its first call only (when \<open>r.Form\<close> is
  nil): that call reads the body to its end, ignores every error and leaves a non-nil
  form. Later calls answer from \<open>r.Form\<close> and do not touch the body. The decoding of
  the body bytes into fields (\<open>url.ParseQuery\<close>) is the parameter \<open>parse\<close>. The
  handlers are routed for POST with form bodies; fields of the URL's query are not
  modelled.
\<close>

definition ParseMultipartForm :: "(bytes \<Rightarrow> string \<rightharpoonup> string) \<Rightarrow> Request \<Rightarrow> Request" where
  "ParseMultipartForm parse r =
     (case Form r of
        Some f \<Rightarrow> r
      | None \<Rightarrow>
          (case ReadAll (Body r) of
             (Inl e, b) \<Rightarrow> r\<lparr>Form := Some Map.empty, Body := b\<rparr>
           | (Inr d, b) \<Rightarrow> r\<lparr>Form := Some (parse d), Body := b\<rparr>))"

definition FormValue :: "(bytes \<Rightarrow> string \<rightharpoonup> string) \<Rightarrow> Request \<Rightarrow> string \<Rightarrow> string \<times> Request" where
  "FormValue parse r key =
     (let r' = ParseMultipartForm parse r in
      (case Form r' of
         None \<Rightarrow> ([], r')
       | Some f \<Rightarrow> (case f key of None \<Rightarrow> ([], r') | Some v \<Rightarrow> (v, r'))))"

section \<open>RequestRefiller (src/main.go)\<close>

text \<open>
  \<open>RequestRefiller\<close> keeps the captured bytes. Its \<open>request\<close> field is a pointer to
  the one request of the handler; the model threads that request explicitly, so
  \<open>Refill\<close> takes the request and returns it with a fresh reader over \<open>data\<close>.
\<close>

record RequestRefiller =
  data :: bytes

definition Refill :: "RequestRefiller \<Rightarrow> Request \<Rightarrow> Request" where
  "Refill rf r = r\<lparr>Body := NewReader (data rf)\<rparr>"

definition NewRequestRefiller :: "Request \<Rightarrow> (error + RequestRefiller) \<times> Request" where
  "NewRequestRefiller r =
     (case ReadAll (Body r) of
        (Inl e, b) \<Rightarrow> (Inl e, r\<lparr>Body := b\<rparr>)
      | (Inr d, b) \<Rightarrow> (let refill = \<lparr>data = d\<rparr> in (Inr refill, Refill refill (r\<lparr>Body := b\<rparr>))))"

text \<open>
  The operations a handler performs on the request between two rewinds: a rewind, a
  read of the whole body, a form lookup.
\<close>

datatype req_op = OpRefill | OpReadAll | OpFormValue string

fun run_op :: "(bytes \<Rightarrow> string \<rightharpoonup> string) \<Rightarrow> RequestRefiller \<Rightarrow> req_op \<Rightarrow> Request \<Rightarrow> Request" where
  "run_op parse rf OpRefill r = Refill rf r"
| "run_op parse rf OpReadAll r = r\<lparr>Body := snd (ReadAll (Body r))\<rparr>"
| "run_op parse rf (OpFormValue k) r = snd (FormValue parse r k)"

fun run_ops :: "(bytes \<Rightarrow> string \<rightharpoonup> string) \<Rightarrow> RequestRefiller \<Rightarrow> req_op list \<Rightarrow> Request \<Rightarrow> Request" where
  "run_ops parse rf [] r = r"
| "run_ops parse rf (x # xs) r = run_ops parse rf xs (run_op parse rf x r)"

section \<open>Response writer\<close>

text \<open>
  \<open>http.ResponseWriter\<close>: the header map, the status (\<open>None\<close> until it is
  written) and what was written to the body. \<open>WriteHeader\<close> after the status is set
  changes nothing; \<open>Write\<close> before any \<open>WriteHeader\<close> sets the status 200 first, as
  net/http documents. The body is kept as chunks: raw bytes, or the line
  \<open>http.Error\<close> prints for an error value.
\<close>

datatype chunk = Raw bytes | ErrorLine error

record ResponseWriter =
  header :: "string \<rightharpoonup> string"
  status :: "nat option"
  written :: "chunk list"

definition Header_Set :: "string \<Rightarrow> string \<Rightarrow> ResponseWriter \<Rightarrow> ResponseWriter" where
  "Header_Set k v w = w\<lparr>header := (header w)(k \<mapsto> v)\<rparr>"

definition WriteHeader :: "nat \<Rightarrow> ResponseWriter \<Rightarrow> ResponseWriter" where
  "WriteHeader code w = (case status w of None \<Rightarrow> w\<lparr>status := Some code\<rparr> | Some c \<Rightarrow> w)"

definition Write_chunk :: "chunk \<Rightarrow> ResponseWriter \<Rightarrow> ResponseWriter" where
  "Write_chunk c w =
     (let w' = (case status w of None \<Rightarrow> w\<lparr>status := Some 200\<rparr> | Some c \<Rightarrow> w)
      in w'\<lparr>written := written w' @ [c]\<rparr>)"

definition Write :: "bytes \<Rightarrow> ResponseWriter \<Rightarrow> ResponseWriter" where
  "Write b w = Write_chunk (Raw b) w"

definition http_Error :: "error \<Rightarrow> nat \<Rightarrow> ResponseWriter \<Rightarrow> ResponseWriter" where
  "http_Error e code w =
     Write_chunk (ErrorLine e)
       (WriteHeader code
         (Header_Set ''X-Content-Type-Options'' ''nosniff''
           (Header_Set ''Content-Type'' ''text/plain; charset=utf-8'' w)))"

definition StatusOK :: nat where "StatusOK = 200"
definition StatusNoContent :: nat where "StatusNoContent = 204"
definition StatusBadRequest :: nat where "StatusBadRequest = 400"
definition StatusInternalServerError :: nat where "StatusInternalServerError = 500"
definition StatusBadGateway :: nat where "StatusBadGateway = 502"

section \<open>Collaborators\<close>

text \<open>
  The values decoded from JSON into \<open>interface{}\<close>; \<open>JNumber\<close> is \<open>json.Number\<close>,
  the literal text of the number. The same type stands for the \<open>interface{}\<close>
  values of extension maps and of context getters.
\<close>

datatype json =
    JNull
  | JBool bool
  | JString string
  | JNumber string
  | JArray "json list"
  | JObject "(string, json) fmap"

text \<open>
  \<open>protocol.AuthenticationExtensions\<close> is \<open>map[string]interface{}\<close>: \<open>None\<close> is
  the nil map, \<open>Some m\<close> a map made by \<open>make\<close>, by a literal or by decoding.
\<close>

type_synonym AuthenticationExtensions = "(string, json) fmap option"

type_synonym ExtensionsVerifier =
  "AuthenticationExtensions \<Rightarrow> AuthenticationExtensions \<Rightarrow> error option"

text \<open>
  \<open>reflect.DeepEqual\<close> on two maps: both nil, or both non-nil with the same keys
  and equal values under every key.
\<close>

definition DeepEqual :: "AuthenticationExtensions \<Rightarrow> AuthenticationExtensions \<Rightarrow> bool" where
  "DeepEqual x y =
     (case x of
        None \<Rightarrow> (case y of None \<Rightarrow> True | Some m2 \<Rightarrow> False)
      | Some m1 \<Rightarrow>
          (case y of
             None \<Rightarrow> False
           | Some m2 \<Rightarrow> fmdom m1 = fmdom m2 \<and> fBall (fmdom m1) (\<lambda>k. fmlookup m1 k = fmlookup m2 k)))"

datatype WebauthnQuery = QueryByUserID int | QueryByUsername string

record WebauthnUser =
  webauthnID :: int
  webauthnName :: string


definition WebAuthnName :: "WebauthnUser \<Rightarrow> string" where
  "WebAuthnName u = webauthnName u"

record SessionData =
  sessChallenge :: string
  sessExtensions :: AuthenticationExtensions

record PublicKeyCredentialRequestOptions =
  Challenge :: string
  Extensions :: AuthenticationExtensions

type_synonym Credential = string
type_synonym CredentialCreation = string
type_synonym cookies = "(string \<times> string) list"

text \<open>
  The collaborators of the handlers, as the functions the handlers call: the form
  decoder, the backend's session-to-user answer, the credential store
  (\<open>db.WebauthnStore\<close>), the session store, the WebAuthn library, the JSON encoder,
  the backend behind the reverse proxy (\<open>roundTrip target body\<close>), the name of an
  SSH key asked from the backend, and the JSON decoder with \<open>UseNumber\<close>. A handler reads them before it writes, so
  one request sees them as functions.
\<close>

record Env =
  parseForm :: "bytes \<Rightarrow> string \<rightharpoonup> string"
  session2user :: "cookies \<Rightarrow> error + (bool \<times> int)"
  IsUserEnabled :: "WebauthnQuery \<Rightarrow> bool"
  GetWebauthnUser :: "WebauthnQuery \<Rightarrow> error + WebauthnUser"
  GetWebauthnSession :: "string \<Rightarrow> cookies \<Rightarrow> error + SessionData"
  SaveWebauthnSession :: "string \<Rightarrow> SessionData \<Rightarrow> cookies \<Rightarrow> error option"
  BeginRegistration :: "WebauthnUser \<Rightarrow> error + (CredentialCreation \<times> SessionData)"
  FinishRegistration :: "WebauthnUser \<Rightarrow> SessionData \<Rightarrow> string \<Rightarrow> error + Credential"
  BeginLogin :: "WebauthnUser \<Rightarrow> error + (PublicKeyCredentialRequestOptions \<times> SessionData)"
  verifyAssertion :: "WebauthnUser \<Rightarrow> SessionData \<Rightarrow> string \<Rightarrow> error + Credential"
  echoedExtensions :: "string \<Rightarrow> AuthenticationExtensions"
  MarshalCreation :: "CredentialCreation \<Rightarrow> error + bytes"
  MarshalOptions :: "PublicKeyCredentialRequestOptions \<Rightarrow> error + bytes"
  roundTrip :: "string \<Rightarrow> bytes \<Rightarrow> error + (nat \<times> bytes)"
  sshKeyFromSSHKeyID :: "int \<Rightarrow> error + string"
  decodeJSON :: "bytes \<Rightarrow> error + json"

text \<open>
  Modelled from the spec: \<open>webauthnAPI.FinishLogin\<close>, of the WebAuthn library, is not
  part of the sources. The spec's Finish-Login asks the primitive "to verify the
  assertion against the stored challenge AND to invoke a supplied extension-verifier"
  on the extension map echoed back by the client. \<open>verifyAssertion\<close> is the first
  part, \<open>echoedExtensions\<close> the echoed map of the submitted assertion; the verifier
  gets the session's extensions and the echoed ones.
\<close>

definition FinishLogin ::
  "Env \<Rightarrow> WebauthnUser \<Rightarrow> SessionData \<Rightarrow> ExtensionsVerifier \<Rightarrow> string \<Rightarrow> error + Credential" where
  "FinishLogin env wuser sessionData verifier assertion =
     (case verifyAssertion env wuser sessionData assertion of
        Inl e \<Rightarrow> Inl e
      | Inr credential \<Rightarrow>
          (case verifier (sessExtensions sessionData) (echoedExtensions env assertion) of
             Some e \<Rightarrow> Inl e
           | None \<Rightarrow> Inr credential))"

text \<open>
  What a handler does to the world outside the response: the calls it makes to the
  collaborators, in order. \<open>Forward host body\<close> is the request the reverse proxy sends
  to the backend, with the body bytes it read from the request.
\<close>

datatype event =
    WhoAmI
  | StoreIsUserEnabled WebauthnQuery
  | StoreGetWebauthnUser WebauthnQuery
  | StoreCreate WebauthnUser Credential
  | StoreDelete string
  | SessionGet string
  | SessionSave string SessionData
  | ApiBeginRegistration WebauthnUser
  | ApiFinishRegistration WebauthnUser
  | ApiBeginLogin WebauthnUser
  | ApiFinishLogin WebauthnUser string
  | BackendItem string int
  | Forward string bytes

record HState =
  resp :: ResponseWriter
  req :: Request
  trace :: "event list"

definition emit :: "event \<Rightarrow> HState \<Rightarrow> HState" where
  "emit ev s = s\<lparr>trace := trace s @ [ev]\<rparr>"

definition on_resp :: "(ResponseWriter \<Rightarrow> ResponseWriter) \<Rightarrow> HState \<Rightarrow> HState" where
  "on_resp f s = s\<lparr>resp := f (resp s)\<rparr>"

definition formValue :: "Env \<Rightarrow> string \<Rightarrow> HState \<Rightarrow> string \<times> HState" where
  "formValue env key s =
     (case FormValue (parseForm env) (req s) key of (v, r') \<Rightarrow> (v, s\<lparr>req := r'\<rparr>))"

definition muxVar :: "Request \<Rightarrow> string \<Rightarrow> string" where
  "muxVar r key = (case Vars r key of None \<Rightarrow> [] | Some v \<Rightarrow> v)"

definition isUserEnabled :: "Env \<Rightarrow> WebauthnQuery \<Rightarrow> HState \<Rightarrow> bool \<times> HState" where
  "isUserEnabled env query s = (IsUserEnabled env query, emit (StoreIsUserEnabled query) s)"

definition frontendAddress :: string where
  "frontendAddress = ''https://localhost:8081''"

definition backendAddress :: string where
  "backendAddress = ''https://localhost:3000''"

text \<open>
  \<open>httputil.ReverseProxy.ServeHTTP\<close> for one target: it reads the request body as
  it stands, sends it to the target, applies \<open>ModifyResponse\<close> to the answer and
  copies it out; a failure is answered with 502.
\<close>

definition ReverseProxy_serve ::
  "string \<Rightarrow> (ResponseWriter \<Rightarrow> ResponseWriter) \<Rightarrow> Env \<Rightarrow> HState \<Rightarrow> HState" where
  "ReverseProxy_serve target ModifyResponse env s =
     (case ReadAll (Body (req s)) of
        (Inl e, b) \<Rightarrow> on_resp (WriteHeader StatusBadGateway) (s\<lparr>req := (req s)\<lparr>Body := b\<rparr>\<rparr>)
      | (Inr d, b) \<Rightarrow>
          (let s' = emit (Forward target d) (s\<lparr>req := (req s)\<lparr>Body := b\<rparr>\<rparr>) in
           (case roundTrip env target d of
              Inl e \<Rightarrow> on_resp (WriteHeader StatusBadGateway) s'
            | Inr (code, payload) \<Rightarrow>
                on_resp (Write payload) (on_resp (WriteHeader code) (on_resp ModifyResponse s')))))"

text \<open>
  The proxy that \<open>WebauthnFirewall\<close> of src/main.go embeds: one target,
  \<open>backendAddress\<close>, and no \<open>ModifyResponse\<close>.
\<close>

definition ReverseProxy_ServeHTTP :: "Env \<Rightarrow> HState \<Rightarrow> HState" where
  "ReverseProxy_ServeHTTP env s = ReverseProxy_serve backendAddress (\<lambda>w. w) env s"

section \<open>strconv.ParseInt(s, 10, 64)\<close>

definition isDigit :: "char \<Rightarrow> bool" where
  "isDigit c = (48 \<le> (of_char c :: nat) \<and> (of_char c :: nat) \<le> 57)"

definition digitVal :: "char \<Rightarrow> nat" where
  "digitVal c = of_char c - 48"

definition maxUint64 :: nat where
  "maxUint64 = 2 ^ 64 - 1"

text \<open>
  The digit loop of \<open>ParseUint\<close> in base 10: a byte that is no digit is a syntax
  error, an accumulator past the cutoff or past \<open>maxUint64\<close> a range error.
\<close>

fun ParseUint_loop :: "nat \<Rightarrow> string \<Rightarrow> NumErrKind + nat" where
  "ParseUint_loop n [] = Inr n"
| "ParseUint_loop n (c # cs) =
     (if \<not> isDigit c then Inl ErrSyntax
      else if n \<ge> maxUint64 div 10 + 1 then Inl ErrRange
      else (let n1 = n * 10 + digitVal c in
            if n1 > maxUint64 then Inl ErrRange else ParseUint_loop n1 cs))"

definition ParseInt :: "string \<Rightarrow> error + int" where
  "ParseInt s0 =
     (case s0 of
        [] \<Rightarrow> Inl (NumError ''ParseInt'' s0 ErrSyntax)
      | c # cs \<Rightarrow>
          (let neg = (c = CHR ''-'');
               s = (if c = CHR ''+'' \<or> c = CHR ''-'' then cs else s0)
           in (case (if s = [] then Inl ErrSyntax else ParseUint_loop 0 s) of
                 Inl ErrSyntax \<Rightarrow> Inl (NumError ''ParseInt'' s0 ErrSyntax)
               | Inl ErrRange \<Rightarrow> Inl (NumError ''ParseInt'' s0 ErrRange)
               | Inr un \<Rightarrow>
                   if \<not> neg \<and> un \<ge> 2 ^ 63 then Inl (NumError ''ParseInt'' s0 ErrRange)
                   else if neg \<and> un > 2 ^ 63 then Inl (NumError ''ParseInt'' s0 ErrRange)
                   else Inr (if neg then - int un else int un))))"

section \<open>The handlers of src/main.go\<close>

text \<open>
  Logging (\<open>logRequest\<close>, \<open>log.Error\<close>) writes to the console only and is left out.
  Every handler takes the state of the request (response writer, request, calls made
  so far) and returns it.
\<close>

definition userIDFromSession :: "Env \<Rightarrow> HState \<Rightarrow> (error + int) \<times> HState" where
  "userIDFromSession env s =
     (let s' = emit WhoAmI s in
      (case session2user env (Cookies (req s)) of
         Inl e \<Rightarrow> (Inl e, s')
       | Inr (ok, uid) \<Rightarrow>
           if \<not> ok then (Inl (Errorf ''Unable to retrieve the userID for this cookie session''), s')
           else (Inr uid, s')))"

definition verifyTxAuthSimple :: "AuthenticationExtensions \<Rightarrow> ExtensionsVerifier" where
  "verifyTxAuthSimple expectedExtensions =
     (\<lambda>_ clientDataExtensions.
        if \<not> DeepEqual expectedExtensions clientDataExtensions
        then Some (Errorf ''Extensions verification failed: Expected %v, Received %v'')
        else None)"

definition checkWebauthnAssertion ::
  "Env \<Rightarrow> HState \<Rightarrow> WebauthnQuery \<Rightarrow> AuthenticationExtensions \<Rightarrow> string \<Rightarrow> error option \<times> HState" where
  "checkWebauthnAssertion env s query expectedExtensions assertion =
     (let s1 = emit (StoreGetWebauthnUser query) s in
      (case GetWebauthnUser env query of
         Inl e \<Rightarrow> (Some e, s1)
       | Inr wuser \<Rightarrow>
           (let s2 = emit (SessionGet ''authentication'') s1 in
            (case GetWebauthnSession env ''authentication'' (Cookies (req s)) of
               Inl e \<Rightarrow> (Some e, s2)
             | Inr sessionData \<Rightarrow>
                 (let s3 = emit (ApiFinishLogin wuser assertion) s2 in
                  (case FinishLogin env wuser sessionData
                          (verifyTxAuthSimple expectedExtensions) assertion of
                     Inl e \<Rightarrow> (Some e, s3)
                   | Inr credential \<Rightarrow> (None, s3)))))))"

definition preamble :: "HState \<Rightarrow> HState" where
  "preamble s = on_resp (Header_Set ''Access-Control-Allow-Credentials'' ''true'') s"

definition prepareJSONResponse :: "HState \<Rightarrow> HState" where
  "prepareJSONResponse s =
     on_resp (Header_Set ''Content-Type'' ''application/json'')
       (on_resp (Header_Set ''Access-Control-Allow-Origin'' frontendAddress) s)"

definition proxyRequest :: "Env \<Rightarrow> HState \<Rightarrow> HState" where
  "proxyRequest env s = ReverseProxy_ServeHTTP env s"

definition invalidFormData :: error where
  "invalidFormData = Errorf ''Invalid form-data parameters''"


definition redirectTo_json :: bytes where
  "redirectTo_json = ''{\"redirectTo\":\"\"}''"



definition txAuthSimple :: "string \<Rightarrow> AuthenticationExtensions" where
  "txAuthSimple text = Some (fmupd ''txAuthSimple'' (JString text) fmempty)"



definition finishLogin :: "Env \<Rightarrow> HState \<Rightarrow> HState" where
  "finishLogin env s0 =
     (let s1 = preamble s0 in
      (case NewRequestRefiller (req s1) of
         (Inl e, r1) \<Rightarrow> on_resp (http_Error e StatusInternalServerError) (s1\<lparr>req := r1\<rparr>)
       | (Inr reqRefill, r1) \<Rightarrow>
           (case formValue env ''user_name'' (s1\<lparr>req := r1\<rparr>) of (username, s2) \<Rightarrow>
           (case formValue env ''assertion'' s2 of (assertion, s3) \<Rightarrow>
              if username = [] \<or> assertion = []
              then on_resp (http_Error invalidFormData StatusInternalServerError) s3
              else
                (case isUserEnabled env (QueryByUsername username) s3 of (isEnabled, s4) \<Rightarrow>
                   (case (if isEnabled
                          then checkWebauthnAssertion env s4 (QueryByUsername username) None assertion
                          else (None, s4)) of
                      (Some e, s5) \<Rightarrow> on_resp (http_Error e StatusBadRequest) s5
                    | (None, s5) \<Rightarrow>
                        ReverseProxy_ServeHTTP env (s5\<lparr>req := Refill reqRefill (req s5)\<rparr>)))))))"

definition disableWebauthn :: "Env \<Rightarrow> HState \<Rightarrow> HState" where
  "disableWebauthn env s0 =
     (let s1 = on_resp (Header_Set ''Access-Control-Allow-Credentials'' ''true'') (preamble s0) in
      (case userIDFromSession env s1 of
         (Inl e, s2) \<Rightarrow> on_resp (http_Error e StatusInternalServerError) s2
       | (Inr userID, s2) \<Rightarrow>
           (case formValue env ''assertion'' s2 of (assertion, s3) \<Rightarrow>
              if assertion = []
              then on_resp (http_Error invalidFormData StatusInternalServerError) s3
              else
                (let query = QueryByUserID userID;
                     s4 = emit (StoreGetWebauthnUser query) s3 in
                 (case GetWebauthnUser env query of
                    Inl e \<Rightarrow> on_resp (http_Error e StatusBadRequest) s4
                  | Inr wuser \<Rightarrow>
                      (let extensions =
                             txAuthSimple (''Confirm disable webauthn for '' @ WebAuthnName wuser) in
                       (case checkWebauthnAssertion env s4 query extensions assertion of
                          (Some e, s5) \<Rightarrow> on_resp (http_Error e StatusBadRequest) s5
                        | (None, s5) \<Rightarrow>
                            on_resp (Write redirectTo_json)
                              (on_resp (WriteHeader StatusOK)
                                (emit (StoreDelete (WebAuthnName wuser)) s5)))))))))"

definition deleteRepositoryHelper :: "Env \<Rightarrow> HState \<Rightarrow> HState" where
  "deleteRepositoryHelper env s0 =
     (let s1 = preamble s0 in
      (case userIDFromSession env s1 of
         (Inl e, s2) \<Rightarrow> on_resp (http_Error e StatusInternalServerError) s2
       | (Inr userID, s2) \<Rightarrow>
           (case isUserEnabled env (QueryByUserID userID) s2 of (isEnabled, s3) \<Rightarrow>
              if isEnabled then
                (case formValue env ''assertion'' s3 of (assertion, s4) \<Rightarrow>
                   if assertion = []
                   then on_resp (http_Error invalidFormData StatusInternalServerError) s4
                   else
                     (let username = muxVar (req s4) ''username'';
                          reponame = muxVar (req s4) ''reponame'';
                          extensions =
                            txAuthSimple (''Confirm repository delete: '' @ username @ ''/'' @ reponame) in
                      (case checkWebauthnAssertion env s4 (QueryByUserID userID) extensions assertion of
                         (Some e, s5) \<Rightarrow> on_resp (http_Error e StatusBadRequest) s5
                       | (None, s5) \<Rightarrow> ReverseProxy_ServeHTTP env s5)))
              else ReverseProxy_ServeHTTP env s3)))"

definition repoSettings :: "Env \<Rightarrow> HState \<Rightarrow> HState" where
  "repoSettings env s0 =
     (case NewRequestRefiller (req s0) of
        (Inl e, r1) \<Rightarrow> on_resp (http_Error e StatusInternalServerError) (s0\<lparr>req := r1\<rparr>)
      | (Inr reqRefill, r1) \<Rightarrow>
          (case formValue env ''action'' (s0\<lparr>req := r1\<rparr>) of (action, s1) \<Rightarrow>
             if action = [] then on_resp (http_Error invalidFormData StatusInternalServerError) s1
             else
               (let s2 = s1\<lparr>req := Refill reqRefill (req s1)\<rparr> in
                if action = ''delete'' then deleteRepositoryHelper env s2
                else proxyRequest env s2)))"

definition addSSHKey :: "Env \<Rightarrow> HState \<Rightarrow> HState" where
  "addSSHKey env s0 =
     (let s1 = preamble s0 in
      (case userIDFromSession env s1 of
         (Inl e, s2) \<Rightarrow> on_resp (http_Error e StatusInternalServerError) s2
       | (Inr userID, s2) \<Rightarrow>
           (case isUserEnabled env (QueryByUserID userID) s2 of (isEnabled, s3) \<Rightarrow>
              if isEnabled then
                (case NewRequestRefiller (req s3) of
                   (Inl e, r1) \<Rightarrow>
                     on_resp (http_Error e StatusInternalServerError) (s3\<lparr>req := r1\<rparr>)
                 | (Inr reqRefill, r1) \<Rightarrow>
                     (case formValue env ''assertion'' (s3\<lparr>req := r1\<rparr>) of (assertion, s4) \<Rightarrow>
                     (case formValue env ''title'' s4 of (sshKeyName, s5) \<Rightarrow>
                        if assertion = [] \<or> sshKeyName = []
                        then on_resp (http_Error invalidFormData StatusInternalServerError) s5
                        else
                          (let extensions = txAuthSimple (''Add SSH key named: '' @ sshKeyName) in
                           (case checkWebauthnAssertion env s5 (QueryByUserID userID)
                                   extensions assertion of
                              (Some e, s6) \<Rightarrow> on_resp (http_Error e StatusBadRequest) s6
                            | (None, s6) \<Rightarrow>
                                ReverseProxy_ServeHTTP env
                                  (s6\<lparr>req := Refill reqRefill (req s6)\<rparr>))))))
              else ReverseProxy_ServeHTTP env s3)))"

definition deleteSSHKey :: "Env \<Rightarrow> HState \<Rightarrow> HState" where
  "deleteSSHKey env s0 =
     (let s1 = preamble s0 in
      (case userIDFromSession env s1 of
         (Inl e, s2) \<Rightarrow> on_resp (http_Error e StatusInternalServerError) s2
       | (Inr userID, s2) \<Rightarrow>
           (case isUserEnabled env (QueryByUserID userID) s2 of (isEnabled, s3) \<Rightarrow>
              if isEnabled then
                (case NewRequestRefiller (req s3) of
                   (Inl e, r1) \<Rightarrow>
                     on_resp (http_Error e StatusInternalServerError) (s3\<lparr>req := r1\<rparr>)
                 | (Inr reqRefill, r1) \<Rightarrow>
                     (case formValue env ''assertion'' (s3\<lparr>req := r1\<rparr>) of (assertion, s4) \<Rightarrow>
                        if assertion = []
                        then on_resp (http_Error invalidFormData StatusInternalServerError) s4
                        else
                          (case formValue env ''id'' s4 of (idText, s5) \<Rightarrow>
                             (case ParseInt idText of
                                Inl e \<Rightarrow> on_resp (http_Error e StatusInternalServerError) s5
                              | Inr sshKeyID \<Rightarrow>
                                  (let s6 = emit (BackendItem ''ssh_key'' sshKeyID) s5 in
                                   (case sshKeyFromSSHKeyID env sshKeyID of
                                      Inl e \<Rightarrow>
                                        on_resp (http_Error e StatusInternalServerError) s6
                                    | Inr sshKeyName \<Rightarrow>
                                        (let extensions =
                                               txAuthSimple (''Delete SSH key named: '' @ sshKeyName) in
                                         (case checkWebauthnAssertion env s6 (QueryByUserID userID)
                                                 extensions assertion of
                                            (Some e, s7) \<Rightarrow>
                                              on_resp (http_Error e StatusBadRequest) s7
                                          | (None, s7) \<Rightarrow>
                                              ReverseProxy_ServeHTTP env
                                                (s7\<lparr>req := Refill reqRefill (req s7)\<rparr>)))))))))
              else ReverseProxy_ServeHTTP env s3)))"

section \<open>The older handlers (src/unnamed/part_000)\<close>

text \<open>
  The older main file has the same handlers with the assertion check written out in
  each of them; those that the claims compare are modelled here, with the suffix
  \<open>_legacy\<close>.
\<close>

definition preamble_legacy :: "HState \<Rightarrow> HState" where
  "preamble_legacy s =
     on_resp (Header_Set ''Content-Type'' ''application/json'')
       (on_resp (Header_Set ''Access-Control-Allow-Origin'' frontendAddress) s)"


definition noVerify :: ExtensionsVerifier where
  "noVerify = (\<lambda>_ _. None)"

definition finishLogin_legacy :: "Env \<Rightarrow> HState \<Rightarrow> HState" where
  "finishLogin_legacy env s0 =
     (let s1 = on_resp (Header_Set ''Access-Control-Allow-Credentials'' ''true'') s0 in
      (case ReadAll (Body (req s1)) of
         (Inl e, b) \<Rightarrow>
           on_resp (http_Error e StatusInternalServerError) (s1\<lparr>req := (req s1)\<lparr>Body := b\<rparr>\<rparr>)
       | (Inr data0, b) \<Rightarrow>
           (case formValue env ''user_name'' (s1\<lparr>req := (req s1)\<lparr>Body := NewReader data0\<rparr>\<rparr>) of
              (username, s2) \<Rightarrow>
           (case formValue env ''assertion'' s2 of (assertion, s3) \<Rightarrow>
              if username = [] \<or> assertion = []
              then on_resp (http_Error invalidFormData StatusInternalServerError) s3
              else
                (case isUserEnabled env (QueryByUsername username) s3 of (isEnabled, s4) \<Rightarrow>
                   (case (if isEnabled then
                            (let s5 = emit (StoreGetWebauthnUser (QueryByUsername username)) s4 in
                             (case GetWebauthnUser env (QueryByUsername username) of
                                Inl e \<Rightarrow> (Some e, s5)
                              | Inr wuser \<Rightarrow>
                                  (let s6 = emit (SessionGet ''authentication'') s5 in
                                   (case GetWebauthnSession env ''authentication'' (Cookies (req s6)) of
                                      Inl e \<Rightarrow> (Some e, s6)
                                    | Inr sessionData \<Rightarrow>
                                        (let s7 = emit (ApiFinishLogin wuser assertion) s6 in
                                         (case FinishLogin env wuser sessionData noVerify assertion of
                                            Inl e \<Rightarrow> (Some e, s7)
                                          | Inr credential \<Rightarrow> (None, s7)))))))
                          else (None, s4)) of
                      (Some e, s8) \<Rightarrow> on_resp (http_Error e StatusBadRequest) s8
                    | (None, s8) \<Rightarrow>
                        ReverseProxy_ServeHTTP env
                          (s8\<lparr>req := (req s8)\<lparr>Body := NewReader data0\<rparr>\<rparr>)))))))"

definition disableWebauthn_legacy :: "Env \<Rightarrow> HState \<Rightarrow> HState" where
  "disableWebauthn_legacy env s0 =
     (let s1 = on_resp (Header_Set ''Access-Control-Allow-Credentials'' ''true'')
                 (preamble_legacy s0) in
      (case userIDFromSession env s1 of
         (Inl e, s2) \<Rightarrow> on_resp (http_Error e StatusInternalServerError) s2
       | (Inr userID, s2) \<Rightarrow>
           (case formValue env ''assertion'' s2 of (assertion, s3) \<Rightarrow>
              if assertion = []
              then on_resp (http_Error invalidFormData StatusInternalServerError) s3
              else
                (let s4 = emit (StoreGetWebauthnUser (QueryByUserID userID)) s3 in
                 (case GetWebauthnUser env (QueryByUserID userID) of
                    Inl e \<Rightarrow> on_resp (http_Error e StatusBadRequest) s4
                  | Inr wuser \<Rightarrow>
                      (let s5 = emit (SessionGet ''authentication'') s4 in
                       (case GetWebauthnSession env ''authentication'' (Cookies (req s5)) of
                          Inl e \<Rightarrow> on_resp (http_Error e StatusBadRequest) s5
                        | Inr sessionData \<Rightarrow>
                            (let s6 = emit (ApiFinishLogin wuser assertion) s5 in
                             (case FinishLogin env wuser sessionData
                                     (verifyTxAuthSimple
                                        (txAuthSimple (''Confirm disable webauthn for ''
                                             @ WebAuthnName wuser)))
                                     assertion of
                                Inl e \<Rightarrow> on_resp (http_Error e StatusBadRequest) s6
                              | Inr credential \<Rightarrow>
                                  on_resp (Write redirectTo_json)
                                    (on_resp (WriteHeader StatusOK)
                                      (emit (StoreDelete (WebAuthnName wuser)) s6)))))))))))"

definition deleteRepositoryHelper_legacy :: "Env \<Rightarrow> HState \<Rightarrow> HState" where
  "deleteRepositoryHelper_legacy env s0 =
     (let s1 = on_resp (Header_Set ''Access-Control-Allow-Credentials'' ''true'') s0 in
      (case userIDFromSession env s1 of
         (Inl e, s2) \<Rightarrow> on_resp (http_Error e StatusInternalServerError) s2
       | (Inr userID, s2) \<Rightarrow>
           (case formValue env ''assertion'' s2 of (assertion, s3) \<Rightarrow>
              if assertion = []
              then on_resp (http_Error invalidFormData StatusInternalServerError) s3
              else
                (let username = muxVar (req s3) ''username'';
                     reponame = muxVar (req s3) ''reponame'' in
                 (case isUserEnabled env (QueryByUserID userID) s3 of (isEnabled, s4) \<Rightarrow>
                    (case (if isEnabled then
                             (let s5 = emit (StoreGetWebauthnUser (QueryByUserID userID)) s4 in
                              (case GetWebauthnUser env (QueryByUserID userID) of
                                 Inl e \<Rightarrow> (Some e, s5)
                               | Inr wuser \<Rightarrow>
                                   (let s6 = emit (SessionGet ''authentication'') s5 in
                                    (case GetWebauthnSession env ''authentication'' (Cookies (req s6)) of
                                       Inl e \<Rightarrow> (Some e, s6)
                                     | Inr sessionData \<Rightarrow>
                                         (let s7 = emit (ApiFinishLogin wuser assertion) s6 in
                                          (case FinishLogin env wuser sessionData
                                                  (verifyTxAuthSimple
                                                     (txAuthSimple (''Confirm repository delete: ''
                                                          @ username @ ''/'' @ reponame)))
                                                  assertion of
                                             Inl e \<Rightarrow> (Some e, s7)
                                           | Inr credential \<Rightarrow> (None, s7)))))))
                           else (None, s4)) of
                       (Some e, s8) \<Rightarrow> on_resp (http_Error e StatusBadRequest) s8
                     | (None, s8) \<Rightarrow> ReverseProxy_ServeHTTP env s8))))))"

definition repoSettings_legacy :: "Env \<Rightarrow> HState \<Rightarrow> HState" where
  "repoSettings_legacy env s0 =
     (case ReadAll (Body (req s0)) of
        (Inl e, b) \<Rightarrow>
          on_resp (http_Error e StatusInternalServerError) (s0\<lparr>req := (req s0)\<lparr>Body := b\<rparr>\<rparr>)
      | (Inr data0, b) \<Rightarrow>
          (case formValue env ''action'' (s0\<lparr>req := (req s0)\<lparr>Body := NewReader data0\<rparr>\<rparr>) of
             (action, s1) \<Rightarrow>
               if action = [] then on_resp (http_Error invalidFormData StatusInternalServerError) s1
               else
                 (let s2 = s1\<lparr>req := (req s1)\<lparr>Body := NewReader data0\<rparr>\<rparr> in
                  if action = ''delete'' then deleteRepositoryHelper_legacy env s2
                  else ReverseProxy_ServeHTTP env s2)))"

section \<open>The firewall package (src/unnamed/part_001, src/webauthn_firewall)\<close>

datatype getInputKind = FormInput | URLInput | JSONInput

text \<open>
  Modelled from the spec: the type \<open>ExtendedRequest\<close> and its method \<open>Refill\<close> are
  declared outside the sources. The sources use its fields \<open>Request\<close> (here
  \<open>httpRequest\<close>), \<open>err\<close> (the error slot of the accessors), \<open>getInputDefault\<close> and
  \<open>contextGetters\<close>, and call \<open>r.Refill()\<close>; the spec's Buffered Request "captures
  its body once" and \<open>rewind()\<close> "resets the request's body stream to the captured
  bytes", which is \<open>RequestRefiller\<close>. \<open>getInputDefault\<close> names one of the three
  getters of the package.
\<close>

record ExtendedRequest =
  httpRequest :: Request
  err :: "error option"
  refiller :: RequestRefiller
  getInputDefault :: getInputKind
  contextGetters :: "string \<rightharpoonup> (json list \<Rightarrow> error + json)"

definition ExtendedRequest_Refill :: "ExtendedRequest \<Rightarrow> ExtendedRequest" where
  "ExtendedRequest_Refill r = r\<lparr>httpRequest := Refill (refiller r) (httpRequest r)\<rparr>"

text \<open>
  A getter receives a pointer to the request, which may be nil (\<open>None\<close>), and
  returns its result together with the request as it left it.
\<close>

type_synonym getInputFnType =
  "ExtendedRequest option \<Rightarrow> string list \<Rightarrow> (error + string) \<times> ExtendedRequest option"

definition GetFormInput :: "Env \<Rightarrow> getInputFnType" where
  "GetFormInput env ropt args =
     (case ropt of
        None \<Rightarrow> (Inl (Errorf ''Nil request received''), None)
      | Some r \<Rightarrow>
          (case args of
             [a] \<Rightarrow>
               (case FormValue (parseForm env) (httpRequest r) a of (val, r') \<Rightarrow>
                  if val = []
                  then (Inl (Errorf ''Invalid form-data parameters''), Some (r\<lparr>httpRequest := r'\<rparr>))
                  else (Inr val, Some (r\<lparr>httpRequest := r'\<rparr>)))
           | _ \<Rightarrow> (Inl (Errorf ''Form inputs expect only 1 argument. Received: %v''), Some r)))"

definition GetURLInput :: "getInputFnType" where
  "GetURLInput ropt args =
     (case ropt of
        None \<Rightarrow> (Inl (Errorf ''Nil request received''), None)
      | Some r \<Rightarrow>
          (case args of
             [a] \<Rightarrow> (Inr (muxVar (httpRequest r) a), Some r)
           | _ \<Rightarrow> (Inl (Errorf ''URL inputs expect only 1 argument. Received: %v''), Some r)))"

text \<open>
  \<open>dec.Decode\<close> with \<open>UseNumber\<close> on the request body: the decoder reads the
  stream (the model lets it read to the end; it reads at least the value it returns)
  and decodes the bytes.
\<close>

definition Decode :: "Env \<Rightarrow> ReadCloser \<Rightarrow> (error + json) \<times> ReadCloser" where
  "Decode env b =
     (case ReadAll b of
        (Inl e, b') \<Rightarrow> (Inl e, b')
      | (Inr d, b') \<Rightarrow> (decodeJSON env d, b'))"

text \<open>
  The loop over \<open>args\<close>: each step casts the value to \<open>jsonBody\<close> and takes the
  entry under the key; a missing key gives the nil interface, as JSON \<open>null\<close> does.
\<close>

fun descend :: "json \<Rightarrow> string list \<Rightarrow> error + json" where
  "descend body [] = Inr body"
| "descend body (arg # args) =
     (case body of
        JObject cast \<Rightarrow>
          descend (case fmlookup cast arg of None \<Rightarrow> JNull | Some v \<Rightarrow> v) args
      | _ \<Rightarrow> Inl (Errorf ''JSON parse fail. Unable to cast intermediate to jsonBody: %[1]T %[1]v''))"

definition GetJSONInput :: "Env \<Rightarrow> getInputFnType" where
  "GetJSONInput env ropt args =
     (case ropt of
        None \<Rightarrow> (Inl (Errorf ''Nil request received''), None)
      | Some r \<Rightarrow>
          if length args < 1
          then (Inl (Errorf ''JSON inputs expect at least 1 argument. Received: %v''), Some r)
          else
            (case Decode env (Body (httpRequest r)) of
               (Inl e, b) \<Rightarrow> (Inl e, Some (r\<lparr>httpRequest := (httpRequest r)\<lparr>Body := b\<rparr>\<rparr>))
             | (Inr body, b) \<Rightarrow>
                 (let r1 = r\<lparr>httpRequest := (httpRequest r)\<lparr>Body := b\<rparr>\<rparr> in
                  (case descend body args of
                     Inl e \<Rightarrow> (Inl e, Some r1)
                   | Inr leaf \<Rightarrow>
                       (case leaf of
                          JString ret \<Rightarrow> (Inr ret, Some (ExtendedRequest_Refill r1))
                        | JNumber ret \<Rightarrow> (Inr ret, Some (ExtendedRequest_Refill r1))
                        | _ \<Rightarrow>
                            (Inl (Errorf ''JSON parse fail. Unable to cast result to string: %[1]v (%[1]T)''),
                             Some r1))))))"

definition getInput_WithErr_Helper ::
  "getInputFnType \<Rightarrow> ExtendedRequest \<Rightarrow> string list \<Rightarrow> (error + string) \<times> ExtendedRequest" where
  "getInput_WithErr_Helper getInputFn r args =
     (case err r of
        Some e \<Rightarrow> (Inl e, r)
      | None \<Rightarrow>
          (case getInputFn (Some r) args of (res, ropt) \<Rightarrow>
             (let r' = (case ropt of None \<Rightarrow> r | Some r1 \<Rightarrow> r1) in
              (case res of
                 Inl e \<Rightarrow> (Inl e, r'\<lparr>err := Some e\<rparr>)
               | Inr val \<Rightarrow> (Inr val, r')))))"

definition getInputInt64_WithErr_Helper ::
  "getInputFnType \<Rightarrow> ExtendedRequest \<Rightarrow> string list \<Rightarrow> (error + int) \<times> ExtendedRequest" where
  "getInputInt64_WithErr_Helper getInputFn r args =
     (case getInput_WithErr_Helper getInputFn r args of
        (Inl e, r') \<Rightarrow> (Inl e, r')
      | (Inr val, r') \<Rightarrow>
          (case ParseInt val of
             Inl e \<Rightarrow> (Inl e, r'\<lparr>err := Some e\<rparr>)
           | Inr valInt \<Rightarrow> (Inr valInt, r')))"

definition GetFormInput_WithErr ::
  "Env \<Rightarrow> ExtendedRequest \<Rightarrow> string list \<Rightarrow> (error + string) \<times> ExtendedRequest" where
  "GetFormInput_WithErr env r args = getInput_WithErr_Helper (GetFormInput env) r args"

definition GetURLInput_WithErr ::
  "ExtendedRequest \<Rightarrow> string list \<Rightarrow> (error + string) \<times> ExtendedRequest" where
  "GetURLInput_WithErr r args = getInput_WithErr_Helper GetURLInput r args"

definition getInputDefault_fn :: "Env \<Rightarrow> ExtendedRequest \<Rightarrow> getInputFnType" where
  "getInputDefault_fn env r =
     (case getInputDefault r of
        FormInput \<Rightarrow> GetFormInput env
      | URLInput \<Rightarrow> GetURLInput
      | JSONInput \<Rightarrow> GetJSONInput env)"

definition Get_WithErr ::
  "Env \<Rightarrow> ExtendedRequest \<Rightarrow> string list \<Rightarrow> (error + string) \<times> ExtendedRequest" where
  "Get_WithErr env r args = getInput_WithErr_Helper (getInputDefault_fn env r) r args"

definition GetInt64_WithErr ::
  "Env \<Rightarrow> ExtendedRequest \<Rightarrow> string list \<Rightarrow> (error + int) \<times> ExtendedRequest" where
  "GetInt64_WithErr env r args = getInputInt64_WithErr_Helper (getInputDefault_fn env r) r args"

definition GetContext_WithErr ::
  "ExtendedRequest \<Rightarrow> string \<Rightarrow> json list \<Rightarrow> (error + json) \<times> ExtendedRequest" where
  "GetContext_WithErr r contextName args =
     (case contextGetters r contextName of
        None \<Rightarrow>
          (let e = Errorf ''Context type does not have getter function: %s''
           in (Inl e, r\<lparr>err := Some e\<rparr>))
      | Some contextGetter \<Rightarrow>
          (case contextGetter args of
             Inl e \<Rightarrow> (Inl e, r\<lparr>err := Some e\<rparr>)
           | Inr val \<Rightarrow> (Inr val, r)))"

text \<open>
  \<open>WebauthnFirewall\<close> of the package: \<open>reverseProxies\<close> maps a host to the target
  its proxy forwards to. \<open>NewWebauthnFirewall\<close> makes one proxy for every entry of
  \<open>ReverseProxyTargetMap\<close> and panics (\<open>None\<close>) when a target does not parse as a
  URL (\<open>urlParses\<close>); each proxy rewrites \<open>Access-Control-Allow-Origin\<close> of the answer.
\<close>

record WebauthnFirewall =
  reverseProxies :: "(string, string) fmap"
  FrontendAddress :: string
  ReverseProxyTargetMap :: "(string, string) fmap"

definition NewWebauthnFirewall ::
  "(string \<Rightarrow> bool) \<Rightarrow> string \<Rightarrow> (string, string) fmap \<Rightarrow> WebauthnFirewall option" where
  "NewWebauthnFirewall urlParses frontend targets =
     (if fmpred (\<lambda>host target. urlParses target) targets
      then Some \<lparr>reverseProxies = targets, FrontendAddress = frontend,
                 ReverseProxyTargetMap = targets\<rparr>
      else None)"

text \<open>
  \<open>ServeHTTP\<close> of the firewall uses only \<open>r.Request\<close> of its extended request,
  which is the request of the state here.
\<close>

definition WebauthnFirewall_ServeHTTP ::
  "Env \<Rightarrow> WebauthnFirewall \<Rightarrow> HState \<Rightarrow> HState" where
  "WebauthnFirewall_ServeHTTP env wfirewall s =
     (let host = Host (req s) in
      (case fmlookup (reverseProxies wfirewall) host of
         Some target \<Rightarrow>
           ReverseProxy_serve target
             (Header_Set ''Access-Control-Allow-Origin'' (FrontendAddress wfirewall)) env s
       | None \<Rightarrow> on_resp (Write (''403: Host forbidden '' @ host)) s))"

section \<open>Observations on a handled request\<close>

definition newResponseWriter :: ResponseWriter where
  "newResponseWriter = \<lparr>header = Map.empty, status = None, written = []\<rparr>"

text \<open>The state in which the router calls a handler.\<close>

definition newState :: "Request \<Rightarrow> HState" where
  "newState r = \<lparr>resp = newResponseWriter, req = r, trace = []\<rparr>"

fun is_Forward :: "event \<Rightarrow> bool" where
  "is_Forward (Forward target body) = True"
| "is_Forward ev = False"

fun is_StoreDelete :: "event \<Rightarrow> bool" where
  "is_StoreDelete (StoreDelete name) = True"
| "is_StoreDelete ev = False"

text \<open>The bodies the backend received, in order.\<close>

fun forwarded :: "event list \<Rightarrow> bytes list" where
  "forwarded [] = []"
| "forwarded (Forward target body # es) = body # forwarded es"
| "forwarded (ev # es) = forwarded es"

definition forwards :: "HState \<Rightarrow> bool" where
  "forwards s = list_ex is_Forward (trace s)"


text \<open>
  A request is rejected when it is answered with 400, nothing was forwarded and no
  credential record was deleted.
\<close>

definition rejected :: "HState \<Rightarrow> bool" where
  "rejected s = (status (resp s) = Some StatusBadRequest \<and> forwarded (trace s) = []
      \<and> \<not> list_ex is_StoreDelete (trace s))"

text \<open>The value \<open>r.FormValue(key)\<close> gives on request \<open>r\<close>.\<close>

definition field :: "Env \<Rightarrow> Request \<Rightarrow> string \<Rightarrow> string" where
  "field env r key = fst (FormValue (parseForm env) r key)"



text \<open>What a reader of the body gets after a getter has returned.\<close>

definition laterRead :: "ExtendedRequest option \<Rightarrow> error + bytes" where
  "laterRead ropt =
     (case ropt of
        None \<Rightarrow> Inl (Errorf ''Nil request received'')
      | Some r \<Rightarrow> fst (ReadAll (Body (httpRequest r))))"

section \<open>A concrete environment\<close>

text \<open>
  \<open>url.ParseQuery\<close> on bodies without percent-escapes: the fields are separated by
  \<open>&\<close>, a name from its value by the first \<open>=\<close>, and the first value of a name
  counts.
\<close>

fun splitOn :: "char \<Rightarrow> string \<Rightarrow> string list" where
  "splitOn c [] = [[]]"
| "splitOn c (x # xs) =
     (if x = c then [] # splitOn c xs
      else (case splitOn c xs of [] \<Rightarrow> [[x]] | y # ys \<Rightarrow> (x # y) # ys))"

definition plainQuery :: "bytes \<Rightarrow> string \<rightharpoonup> string" where
  "plainQuery d =
     map_of (map (\<lambda>kv. (takeWhile (\<lambda>c. c \<noteq> CHR ''='') kv,
                          drop 1 (dropWhile (\<lambda>c. c \<noteq> CHR ''='') kv)))
                 (splitOn CHR ''&'' d))"

text \<open>The JSON decoder on the two documents used below.\<close>

definition demoJSON :: "bytes \<Rightarrow> error + json" where
  "demoJSON d =
     (if d = ''{\"a\":true}'' then Inr (JObject (fmupd ''a'' (JBool True) fmempty))
      else if d = ''{\"key\":{\"id\":9007199254740993}}''
      then Inr (JObject (fmupd ''key''
                  (JObject (fmupd ''id'' (JNumber ''9007199254740993'') fmempty)) fmempty))
      else Inl (ExternalError ''invalid character''))"

definition demoSession :: SessionData where
  "demoSession = \<lparr>sessChallenge = ''challenge-1'', sessExtensions = None\<rparr>"

text \<open>
  An environment in which user 7, alice, is enrolled and enabled, every collaborator
  answers, the signature of every assertion verifies, the assertion \<open>A1\<close> echoes the
  extension of deleting alice/repo1 and \<open>A3\<close> that of disabling webauthn for alice;
  any other assertion echoes none.
\<close>

definition demoEnv :: Env where
  "demoEnv =
     \<lparr>parseForm = plainQuery,
      session2user = (\<lambda>c. Inr (True, 7)),
      IsUserEnabled = (\<lambda>q. True),
      GetWebauthnUser = (\<lambda>q. Inr \<lparr>webauthnID = 7, webauthnName = ''alice''\<rparr>),
      GetWebauthnSession = (\<lambda>kind c. Inr demoSession),
      SaveWebauthnSession = (\<lambda>kind sessionData c. None),
      BeginRegistration = (\<lambda>u. Inr (''creation-options'', demoSession)),
      FinishRegistration = (\<lambda>u sessionData credentials. Inr ''credential-1''),
      BeginLogin = (\<lambda>u. Inr (\<lparr>Challenge = ''challenge-1'', Extensions = None\<rparr>, demoSession)),
      verifyAssertion = (\<lambda>u sessionData assertion. Inr ''credential-1''),
      echoedExtensions =
        (\<lambda>assertion.
           if assertion = ''A1'' then txAuthSimple ''Confirm repository delete: alice/repo1''
           else if assertion = ''A3'' then txAuthSimple ''Confirm disable webauthn for alice''
           else None),
      MarshalCreation = (\<lambda>options. Inr ''{\"publicKey\":{}}''),
      MarshalOptions = (\<lambda>options. Inr ''{\"publicKey\":{}}''),
      roundTrip = (\<lambda>target body. Inr (200, ''ok'')),
      sshKeyFromSSHKeyID = (\<lambda>sshKeyID. Inr ''laptop''),
      decodeJSON = demoJSON\<rparr>"

definition demoRequest :: "bytes \<Rightarrow> Request" where
  "demoRequest body =
     \<lparr>Method = ''POST'', Host = ''localhost:8081'', Cookies = [(''session'', ''s1'')],
      Vars = [''username'' \<mapsto> ''alice'', ''reponame'' \<mapsto> ''repo2''],
      Form = None, Body = NewReader body\<rparr>"

text \<open>The same environment with no account enabled.\<close>

definition demoEnvNotEnabled :: Env where
  "demoEnvNotEnabled = demoEnv\<lparr>IsUserEnabled := (\<lambda>q. False)\<rparr>"

text \<open>
  An extended request over a captured body, with two context getters: one that
  answers and one whose backend fails.
\<close>

definition demoContextGetters :: "string \<rightharpoonup> (json list \<Rightarrow> error + json)" where
  "demoContextGetters =
     [''ssh_key'' \<mapsto> (\<lambda>args. Inr (JString ''laptop'')),
      ''broken'' \<mapsto> (\<lambda>args. Inl (ExternalError ''backend unreachable''))]"

definition demoExtended :: "bytes \<Rightarrow> ExtendedRequest" where
  "demoExtended body =
     \<lparr>httpRequest = demoRequest body, err = None, refiller = \<lparr>data = body\<rparr>,
      getInputDefault = JSONInput, contextGetters = demoContextGetters\<rparr>"

text \<open>The extended request after a form lookup of a field the body does not have.\<close>

definition demoFailed :: ExtendedRequest where
  "demoFailed = snd (GetFormInput_WithErr demoEnv (demoExtended ''user=alice'') [''title''])"

definition demoTargets :: "(string, string) fmap" where
  "demoTargets = fmupd ''localhost:8081'' ''https://localhost:3000'' fmempty"

definition demoFirewall :: WebauthnFirewall where
  "demoFirewall =
     \<lparr>reverseProxies = demoTargets, FrontendAddress = ''https://localhost:8081'',
      ReverseProxyTargetMap = demoTargets\<rparr>"

section \<open>Properties of RequestRefiller\<close>

lemma ReadAll_NewReader: "ReadAll (NewReader d) = (Inr d, \<lparr>pending = [], fault = None\<rparr>)"
  by (simp add: ReadAll_def NewReader_def)

lemma Refill_idem: "Refill rf (Refill rf r) = Refill rf r"
  by (simp add: Refill_def)

lemma Refill_funpow: "Body ((Refill rf ^^ n) (Refill rf r)) = NewReader (data rf)"
  by (induction n) (simp_all add: Refill_def)

lemma NewRequestRefiller_ok:
  assumes "NewRequestRefiller r = (Inr rf, r1)"
  shows "fault (Body r) = None" and "data rf = pending (Body r)" and "r1 = Refill rf r1"
    and "Body r1 = NewReader (pending (Body r))"
  using assms
  by (auto simp: NewRequestRefiller_def ReadAll_def Refill_def Let_def split: option.splits)

section \<open>Lemmas on the handlers\<close>


lemmas resp_defs = on_resp_def emit_def Header_Set_def WriteHeader_def Write_chunk_def Write_def
  http_Error_def

lemma forwarded_append: "forwarded (xs @ ys) = forwarded xs @ forwarded ys"
  by (induction xs rule: forwarded.induct) simp_all

lemma on_resp_simps [simp]:
  "trace (on_resp f s) = trace s" "req (on_resp f s) = req s" "resp (on_resp f s) = f (resp s)"
  by (simp_all add: on_resp_def)

lemma emit_simps [simp]:
  "trace (emit ev s) = trace s @ [ev]" "req (emit ev s) = req s" "resp (emit ev s) = resp s"
  by (simp_all add: emit_def)

lemma formValue_simps [simp]:
  "trace (snd (formValue env k s)) = trace s"
  "resp (snd (formValue env k s)) = resp s"
  "req (snd (formValue env k s)) = snd (FormValue (parseForm env) (req s) k)"
  "fst (formValue env k s) = fst (FormValue (parseForm env) (req s) k)"
  by (simp_all add: formValue_def split: prod.splits)

lemma FormValue_parsed:
  "Form r = Some f \<Longrightarrow> snd (FormValue parse r k) = r"
  by (simp add: FormValue_def ParseMultipartForm_def split: option.splits)

lemma FormValue_Form: "Form (snd (FormValue parse r k)) \<noteq> None"
  by (auto simp: FormValue_def ParseMultipartForm_def Let_def split: option.splits prod.splits sum.splits)

lemma FormValue_twice [simp]:
  "snd (FormValue parse (snd (FormValue parse r k)) k') = snd (FormValue parse r k)"
  using FormValue_Form [of parse r k] FormValue_parsed by fastforce

lemma FormValue_Refill [simp]:
  "snd (FormValue parse (Refill rf (snd (FormValue parse r k))) k') = Refill rf (snd (FormValue parse r k))"
proof -
  obtain f where "Form (snd (FormValue parse r k)) = Some f" using FormValue_Form [of parse r k] by auto
  then have "Form (Refill rf (snd (FormValue parse r k))) = Some f" by (simp add: Refill_def)
  then show ?thesis by (rule FormValue_parsed)
qed

lemma userIDFromSession_simps [simp]:
  "snd (userIDFromSession env s) = emit WhoAmI s"
  by (simp add: userIDFromSession_def Let_def split: sum.splits prod.splits)

lemma isUserEnabled_simps [simp]:
  "snd (isUserEnabled env q s) = emit (StoreIsUserEnabled q) s"
  "fst (isUserEnabled env q s) = IsUserEnabled env q"
  by (simp_all add: isUserEnabled_def)

lemma check_simps [simp]:
  "req (snd (checkWebauthnAssertion env s q E a)) = req s"
  "resp (snd (checkWebauthnAssertion env s q E a)) = resp s"
  "forwarded (trace (snd (checkWebauthnAssertion env s q E a))) = forwarded (trace s)"
  by (simp_all add: checkWebauthnAssertion_def Let_def forwarded_append split: sum.splits)

lemma ReverseProxy_forwarded:
  "forwarded (trace (ReverseProxy_ServeHTTP env s))
     = forwarded (trace s) @ (case fault (Body (req s)) of None \<Rightarrow> [pending (Body (req s))] | Some e \<Rightarrow> [])"
  by (simp add: ReverseProxy_ServeHTTP_def ReverseProxy_serve_def ReadAll_def Let_def forwarded_append
       split: option.splits sum.splits prod.splits)

lemma FormValue_keeps [simp]:
  "Vars (snd (FormValue parse r k)) = Vars r"
  "Cookies (snd (FormValue parse r k)) = Cookies r"
  "Host (snd (FormValue parse r k)) = Host r"
  by (simp_all add: FormValue_def ParseMultipartForm_def Let_def split: option.splits prod.splits sum.splits)

lemma muxVar_FormValue [simp]: "muxVar (snd (FormValue parse r k)) v = muxVar r v"
  by (simp add: muxVar_def)

lemma check_None_iff:
  "fst (checkWebauthnAssertion env s q E a) = None \<longleftrightarrow>
     (\<exists>wuser sd cred. GetWebauthnUser env q = Inr wuser
        \<and> GetWebauthnSession env ''authentication'' (Cookies (req s)) = Inr sd
        \<and> verifyAssertion env wuser sd a = Inr cred
        \<and> DeepEqual E (echoedExtensions env a))"
  by (auto simp: checkWebauthnAssertion_def FinishLogin_def verifyTxAuthSimple_def Let_def
        split: sum.splits option.splits)

lemma check_trace_no_delete [simp]:
  "list_ex is_StoreDelete (trace (snd (checkWebauthnAssertion env s q E a))) = list_ex is_StoreDelete (trace s)"
  by (simp add: checkWebauthnAssertion_def Let_def split: sum.splits)


lemma DeepEqual_iff: "DeepEqual x y \<longleftrightarrow> x = y"
proof (cases x; cases y)
  fix m1 m2 assume xy: "x = Some m1" "y = Some m2"
  show ?thesis
  proof
    assume "DeepEqual x y"
    then have d: "fmdom m1 = fmdom m2" and l: "\<And>k. k |\<in>| fmdom m1 \<Longrightarrow> fmlookup m1 k = fmlookup m2 k"
      using xy by (auto simp: DeepEqual_def)
    have "fmlookup m1 k = fmlookup m2 k" for k
    proof (cases "k |\<in>| fmdom m1")
      case True then show ?thesis by (rule l)
    next
      case False
      then have "fmlookup m1 k = None" "fmlookup m2 k = None" using d by (auto dest: fmdom_notD)
      then show ?thesis by simp
    qed
    then have "m1 = m2" by (rule fmap_ext)
    then show "x = y" using xy by simp
  next
    assume "x = y" then show "DeepEqual x y" using xy by (simp add: DeepEqual_def)
  qed
qed (simp_all add: DeepEqual_def)

lemma check_mismatch:
  assumes "echoedExtensions env a \<noteq> E"
  shows "fst (checkWebauthnAssertion env s q E a) \<noteq> None"
  using assms by (auto simp: check_None_iff DeepEqual_iff)

lemma FinishLogin_mismatch:
  assumes "echoedExtensions env a \<noteq> E"
  shows "\<exists>e. FinishLogin env wuser sd (verifyTxAuthSimple E) a = Inl e"
  using assms by (auto simp: FinishLogin_def verifyTxAuthSimple_def DeepEqual_iff split: sum.splits)

lemma http_Error_new [simp]:
  "status (http_Error e code w) = (case status w of None \<Rightarrow> Some code | Some c \<Rightarrow> Some c)"
  "written (http_Error e code w) = written w @ [ErrorLine e]"
  by (simp_all add: http_Error_def Write_chunk_def WriteHeader_def Header_Set_def Let_def split: option.splits)

lemma Header_Set_simps [simp]:
  "status (Header_Set k v w) = status w" "written (Header_Set k v w) = written w"
  by (simp_all add: Header_Set_def)

lemma C1_disable:
  assumes "session2user env (Cookies r) = Inr (True, uid)"
    and "field env r ''assertion'' \<noteq> []"
    and "GetWebauthnUser env (QueryByUserID uid) = Inr wuser"
    and "echoedExtensions env (field env r ''assertion'')
           \<noteq> txAuthSimple (''Confirm disable webauthn for '' @ WebAuthnName wuser)"
  shows "rejected (disableWebauthn env (newState r))"
proof -
  let ?s = "emit (StoreGetWebauthnUser (QueryByUserID uid))
              (snd (formValue env ''assertion''
                (emit WhoAmI (on_resp (Header_Set ''Access-Control-Allow-Credentials'' ''true'')
                   (preamble (newState r))))))"
  let ?E = "txAuthSimple (''Confirm disable webauthn for '' @ WebAuthnName wuser)"
  obtain e s5 where c: "checkWebauthnAssertion env ?s (QueryByUserID uid) ?E (field env r ''assertion'') = (Some e, s5)"
    using check_mismatch [OF assms(4), of ?s "QueryByUserID uid"]
    by (metis fst_conv not_None_eq surj_pair)
  have s5: "s5 = snd (checkWebauthnAssertion env ?s (QueryByUserID uid) ?E (field env r ''assertion''))"
    using c by simp
  have "disableWebauthn env (newState r) = on_resp (http_Error e StatusBadRequest) s5"
    using assms(1-3) c
    by (simp add: disableWebauthn_def userIDFromSession_def preamble_def newState_def Let_def
         case_prod_beta field_def)
  then show ?thesis
    unfolding s5
    by (simp add: rejected_def forwarded_append preamble_def newState_def newResponseWriter_def)
qed


lemma C1_disable_legacy:
  assumes "session2user env (Cookies r) = Inr (True, uid)"
    and "field env r ''assertion'' \<noteq> []"
    and "GetWebauthnUser env (QueryByUserID uid) = Inr wuser"
    and "echoedExtensions env (field env r ''assertion'')
           \<noteq> txAuthSimple (''Confirm disable webauthn for '' @ WebAuthnName wuser)"
  shows "rejected (disableWebauthn_legacy env (newState r))"
proof -
  have "FinishLogin env wuser sd
          (verifyTxAuthSimple (txAuthSimple (''Confirm disable webauthn for '' @ WebAuthnName wuser)))
          (fst (FormValue (parseForm env) r ''assertion'')) \<noteq> Inr c" for sd c
    using FinishLogin_mismatch [OF assms(4), of wuser sd] by (auto simp: field_def)
  then show ?thesis
    using assms(1-3)
    by (auto simp: disableWebauthn_legacy_def userIDFromSession_def preamble_legacy_def newState_def
          Let_def case_prod_beta field_def rejected_def forwarded_append newResponseWriter_def
          split: sum.splits)
qed

lemma C1_delete:
  assumes "session2user env (Cookies r) = Inr (True, uid)"
    and "IsUserEnabled env (QueryByUserID uid)"
    and "field env r ''assertion'' \<noteq> []"
    and "echoedExtensions env (field env r ''assertion'')
           \<noteq> txAuthSimple (''Confirm repository delete: '' @ muxVar r ''username'' @ ''/''
                 @ muxVar r ''reponame'')"
  shows "rejected (deleteRepositoryHelper env (newState r))"
proof -
  let ?s = "snd (formValue env ''assertion''
              (emit (StoreIsUserEnabled (QueryByUserID uid)) (emit WhoAmI (preamble (newState r)))))"
  let ?E = "txAuthSimple (''Confirm repository delete: '' @ muxVar r ''username'' @ ''/''
                 @ muxVar r ''reponame'')"
  obtain e s5 where c: "checkWebauthnAssertion env ?s (QueryByUserID uid) ?E (field env r ''assertion'') = (Some e, s5)"
    using check_mismatch [OF assms(4), of ?s "QueryByUserID uid"]
    by (metis fst_conv not_None_eq surj_pair)
  have s5: "s5 = snd (checkWebauthnAssertion env ?s (QueryByUserID uid) ?E (field env r ''assertion''))"
    using c by simp
  have "deleteRepositoryHelper env (newState r) = on_resp (http_Error e StatusBadRequest) s5"
    using assms(1-3) c
    by (simp add: deleteRepositoryHelper_def userIDFromSession_def preamble_def newState_def Let_def
         case_prod_beta field_def)
  then show ?thesis
    unfolding s5
    by (simp add: rejected_def forwarded_append preamble_def newState_def newResponseWriter_def)
qed

lemma C1_delete_legacy:
  assumes "session2user env (Cookies r) = Inr (True, uid)"
    and "IsUserEnabled env (QueryByUserID uid)"
    and "field env r ''assertion'' \<noteq> []"
    and "echoedExtensions env (field env r ''assertion'')
           \<noteq> txAuthSimple (''Confirm repository delete: '' @ muxVar r ''username'' @ ''/''
                 @ muxVar r ''reponame'')"
  shows "rejected (deleteRepositoryHelper_legacy env (newState r))"
proof -
  have "FinishLogin env wuser sd
          (verifyTxAuthSimple (txAuthSimple (''Confirm repository delete: '' @ muxVar r ''username''
              @ ''/'' @ muxVar r ''reponame'')))
          (fst (FormValue (parseForm env) r ''assertion'')) \<noteq> Inr c" for sd wuser c
    using FinishLogin_mismatch [OF assms(4), of wuser sd] by (auto simp: field_def)
  then show ?thesis
    using assms(1-3)
    by (auto simp: deleteRepositoryHelper_legacy_def userIDFromSession_def newState_def
          Let_def case_prod_beta field_def rejected_def forwarded_append newResponseWriter_def
          split: sum.splits)
qed


lemma field_after [simp]:
  "fst (FormValue parse (snd (FormValue parse r k)) k') = fst (FormValue parse r k')"
  by (auto simp: FormValue_def ParseMultipartForm_def ReadAll_def Let_def
        split: option.splits prod.splits sum.splits)

lemma field_captured [simp]:
  "fault (Body r) = None \<Longrightarrow>
   fst (FormValue parse (r\<lparr>Body := NewReader (pending (Body r))\<rparr>) k) = fst (FormValue parse r k)"
  by (auto simp: FormValue_def ParseMultipartForm_def ReadAll_def NewReader_def Let_def
        split: option.splits prod.splits sum.splits)

lemma NewRequestRefiller_fault:
  "fault (Body r) = Some e \<Longrightarrow> NewRequestRefiller r = (Inl e, r)"
  by (simp add: NewRequestRefiller_def ReadAll_def)

lemma NewRequestRefiller_nofault:
  "fault (Body r) = None \<Longrightarrow>
   NewRequestRefiller r = (Inr \<lparr>data = pending (Body r)\<rparr>, r\<lparr>Body := NewReader (pending (Body r))\<rparr>)"
  by (simp add: NewRequestRefiller_def ReadAll_def Refill_def)

lemma ReadAll_fault: "fault b = Some e \<Longrightarrow> ReadAll b = (Inl e, b)"
  by (simp add: ReadAll_def)

lemma ReadAll_nofault: "fault b = None \<Longrightarrow> ReadAll b = (Inr (pending b), b\<lparr>pending := []\<rparr>)"
  by (simp add: ReadAll_def)

lemma forwards_simps [simp]:
  "forwards (on_resp f s) = forwards s"
  by (simp add: forwards_def)

lemma check_forwards [simp]:
  "forwards (snd (checkWebauthnAssertion env s q E a)) = forwards s"
  by (simp add: forwards_def checkWebauthnAssertion_def Let_def split: sum.splits)



lemma forwards_newState [simp]: "\<not> forwards (newState r)"
  by (simp add: forwards_def newState_def)

lemma forwards_upd [simp]:
  "forwards (s\<lparr>req := x\<rparr>) = forwards s" "forwards (s\<lparr>resp := y\<rparr>) = forwards s"
  "forwards (snd (formValue env k s)) = forwards s"
  "forwards (emit ev s) = (forwards s \<or> is_Forward ev)"
  by (auto simp: forwards_def)







lemma Refill_simps [simp]:
  "Form (Refill rf r) = Form r" "Body (Refill rf r) = NewReader (data rf)"
  "Vars (Refill rf r) = Vars r" "Cookies (Refill rf r) = Cookies r" "Host (Refill rf r) = Host r"
  by (simp_all add: Refill_def)

lemma FormValue_cached [simp]:
  "Form r \<noteq> None \<Longrightarrow> snd (FormValue parse r k) = r"
  by (auto simp: FormValue_def ParseMultipartForm_def split: option.splits)

lemma FormValue_Form_simp [simp]: "(Form (snd (FormValue parse r k)) = None) = False"
  using FormValue_Form [of parse r k] by simp

lemma NewReader_simps [simp]: "fault (NewReader d) = None" "pending (NewReader d) = d"
  by (simp_all add: NewReader_def)

lemma forwarded_newState [simp]: "forwarded (trace (newState r)) = []" "req (newState r) = r"
  by (simp_all add: newState_def)

lemma preamble_simps [simp]:
  "trace (preamble s) = trace s" "req (preamble s) = req s"
  by (simp_all add: preamble_def)


lemma deleteRepositoryHelper_forwarded:
  assumes "Form (req s) \<noteq> None"
  shows "forwarded (trace (deleteRepositoryHelper env s)) = forwarded (trace s)
       \<or> (fault (Body (req s)) = None
          \<and> forwarded (trace (deleteRepositoryHelper env s)) = forwarded (trace s) @ [pending (Body (req s))])"
  using assms
  by (simp add: deleteRepositoryHelper_def case_prod_beta Let_def
        ReverseProxy_forwarded forwarded_append split: sum.splits option.splits)

lemma C5_repoSettings:
  "forwarded (trace (repoSettings env (newState r))) = [] \<or>
   forwarded (trace (repoSettings env (newState r))) = [pending (Body r)]"
proof (cases "fault (Body r)")
  case (Some e)
  then show ?thesis by (simp add: repoSettings_def NewRequestRefiller_fault)
next
  case None
  let ?s = "(snd (formValue env ''action'' (newState r\<lparr>req := r\<lparr>Body := NewReader (pending (Body r))\<rparr>\<rparr>)))
              \<lparr>req := Refill \<lparr>data = pending (Body r)\<rparr>
                 (req (snd (formValue env ''action'' (newState r\<lparr>req := r\<lparr>Body := NewReader (pending (Body r))\<rparr>\<rparr>))))\<rparr>"
  have "Form (req ?s) \<noteq> None" by simp
  from deleteRepositoryHelper_forwarded [OF this, of env]
  have d: "forwarded (trace (deleteRepositoryHelper env ?s)) = [] \<or>
           forwarded (trace (deleteRepositoryHelper env ?s)) = [pending (Body r)]"
    by simp
  have p: "forwarded (trace (proxyRequest env ?s)) = [pending (Body r)]"
    by (simp add: proxyRequest_def ReverseProxy_forwarded)
  show ?thesis
    using None d p
    by (simp add: repoSettings_def NewRequestRefiller_nofault case_prod_beta Let_def)
qed


lemma C5_finishLogin:
  "forwarded (trace (finishLogin env (newState r))) = [] \<or>
   forwarded (trace (finishLogin env (newState r))) = [pending (Body r)]"
proof (cases "fault (Body r)")
  case (Some e)
  then show ?thesis by (simp add: finishLogin_def NewRequestRefiller_fault)
next
  case None
  then show ?thesis
    by (simp add: finishLogin_def NewRequestRefiller_nofault case_prod_beta Let_def
          ReverseProxy_forwarded forwarded_append split: option.splits)
qed

lemma C5_finishLogin_legacy:
  "forwarded (trace (finishLogin_legacy env (newState r))) = [] \<or>
   forwarded (trace (finishLogin_legacy env (newState r))) = [pending (Body r)]"
proof (cases "fault (Body r)")
  case (Some e)
  then show ?thesis by (simp add: finishLogin_legacy_def ReadAll_fault)
next
  case None
  then show ?thesis
    by (simp add: finishLogin_legacy_def ReadAll_nofault case_prod_beta Let_def
          ReverseProxy_forwarded forwarded_append split: option.splits sum.splits)
qed

lemma deleteRepositoryHelper_legacy_forwarded:
  assumes "Form (req s) \<noteq> None"
  shows "forwarded (trace (deleteRepositoryHelper_legacy env s)) = forwarded (trace s)
       \<or> (fault (Body (req s)) = None
          \<and> forwarded (trace (deleteRepositoryHelper_legacy env s)) = forwarded (trace s) @ [pending (Body (req s))])"
  using assms
  by (simp add: deleteRepositoryHelper_legacy_def case_prod_beta Let_def
        ReverseProxy_forwarded forwarded_append split: sum.splits option.splits)

lemma C5_repoSettings_legacy:
  "forwarded (trace (repoSettings_legacy env (newState r))) = [] \<or>
   forwarded (trace (repoSettings_legacy env (newState r))) = [pending (Body r)]"
proof (cases "fault (Body r)")
  case (Some e)
  then show ?thesis by (simp add: repoSettings_legacy_def ReadAll_fault)
next
  case None
  let ?s1 = "snd (formValue env ''action'' (newState r\<lparr>req := r\<lparr>Body := NewReader (pending (Body r))\<rparr>\<rparr>))"
  let ?s = "?s1\<lparr>req := (req ?s1)\<lparr>Body := NewReader (pending (Body r))\<rparr>\<rparr>"
  have "Form (req ?s) \<noteq> None" by simp
  from deleteRepositoryHelper_legacy_forwarded [OF this, of env]
  have d: "forwarded (trace (deleteRepositoryHelper_legacy env ?s)) = [] \<or>
           forwarded (trace (deleteRepositoryHelper_legacy env ?s)) = [pending (Body r)]"
    by simp
  have p: "forwarded (trace (ReverseProxy_ServeHTTP env ?s)) = [pending (Body r)]"
    by (simp add: ReverseProxy_forwarded)
  show ?thesis
    using None d p
    by (simp add: repoSettings_legacy_def ReadAll_nofault case_prod_beta Let_def)
qed

lemma C5_addSSHKey:
  "forwarded (trace (addSSHKey env (newState r))) = [] \<or>
   forwarded (trace (addSSHKey env (newState r))) = [pending (Body r)]"
proof (cases "fault (Body r)")
  case (Some e)
  then show ?thesis
    by (simp add: addSSHKey_def NewRequestRefiller_fault case_prod_beta Let_def
          ReverseProxy_forwarded forwarded_append split: sum.splits)
next
  case None
  then show ?thesis
    by (simp add: addSSHKey_def NewRequestRefiller_nofault case_prod_beta Let_def
          ReverseProxy_forwarded forwarded_append split: option.splits sum.splits)
qed

lemma C5_deleteSSHKey:
  "forwarded (trace (deleteSSHKey env (newState r))) = [] \<or>
   forwarded (trace (deleteSSHKey env (newState r))) = [pending (Body r)]"
proof (cases "fault (Body r)")
  case (Some e)
  then show ?thesis
    by (simp add: deleteSSHKey_def NewRequestRefiller_fault case_prod_beta Let_def
          ReverseProxy_forwarded forwarded_append split: sum.splits)
next
  case None
  then show ?thesis
    by (simp add: deleteSSHKey_def NewRequestRefiller_nofault case_prod_beta Let_def
          ReverseProxy_forwarded forwarded_append split: option.splits sum.splits)
qed





lemma userIDFromSession_ok:
  "session2user env (Cookies (req s)) = Inr (True, uid) \<Longrightarrow> fst (userIDFromSession env s) = Inr uid"
  by (simp add: userIDFromSession_def Let_def)

lemma preamble_Cookies [simp]: "Cookies (req (preamble s)) = Cookies (req s)"
  by simp





lemma newState_resp [simp]:
  "status (resp (newState r)) = None" "written (resp (newState r)) = []" "trace (newState r) = []"
  by (simp_all add: newState_def newResponseWriter_def)

lemma prepare_simps [simp]:
  "trace (prepareJSONResponse s) = trace s" "req (prepareJSONResponse s) = req s"
  "status (resp (prepareJSONResponse s)) = status (resp s)"
  "written (resp (prepareJSONResponse s)) = written (resp s)"
  "status (resp (preamble s)) = status (resp s)"
  "written (resp (preamble s)) = written (resp s)"
  by (simp_all add: prepareJSONResponse_def preamble_def)







lemma C6_general:
  assumes "fmlookup (reverseProxies wfirewall) (Host r) = None"
  shows "WebauthnFirewall_ServeHTTP env wfirewall (newState r)
       = \<lparr>resp = \<lparr>header = Map.empty, status = Some 200,
                  written = [Raw (''403: Host forbidden '' @ Host r)]\<rparr>,
          req = r, trace = []\<rparr>"
  using assms
  by (simp add: WebauthnFirewall_ServeHTTP_def newState_def newResponseWriter_def on_resp_def
        Write_def Write_chunk_def Let_def)

lemma sticky_helper:
  assumes "err r = Some e"
  shows "getInput_WithErr_Helper getInputFn r args = (Inl e, r)"
  using assms by (simp add: getInput_WithErr_Helper_def)

lemma helper_sets_err:
  assumes "getInput_WithErr_Helper getInputFn r args = (Inl e, r')"
  shows "err r' = Some e"
  using assms
  by (auto simp: getInput_WithErr_Helper_def Let_def split: option.splits prod.splits sum.splits)

lemmas demo_defs = demoEnv_def demoEnvNotEnabled_def demoRequest_def demoSession_def plainQuery_def
  field_def FormValue_def ParseMultipartForm_def ReadAll_def NewReader_def

lemma txAuthSimple_inject: "txAuthSimple a = txAuthSimple b \<longleftrightarrow> a = b"
proof
  assume "txAuthSimple a = txAuthSimple b"
  then have "fmlookup (fmupd ''txAuthSimple'' (JString a) fmempty) ''txAuthSimple''
           = fmlookup (fmupd ''txAuthSimple'' (JString b) fmempty) ''txAuthSimple''"
    by (simp add: txAuthSimple_def)
  then show "a = b" by simp
qed simp

lemma C8_general:
  assumes "GetJSONInput env (Some r) args = (Inr v, ropt)"
  shows "\<exists>body. decodeJSON env (pending (Body (httpRequest r))) = Inr body
          \<and> (descend body args = Inr (JString v) \<or> descend body args = Inr (JNumber v))"
    and "laterRead ropt = Inr (data (refiller r))"
  using assms
  by (auto simp: GetJSONInput_def Decode_def ReadAll_def laterRead_def ExtendedRequest_Refill_def
        Refill_def NewReader_def Let_def
        split: if_splits sum.splits option.splits prod.splits json.splits)

lemma C8_number:
  assumes "fault (Body (httpRequest r)) = None" and "args \<noteq> []"
    and "decodeJSON env (pending (Body (httpRequest r))) = Inr body"
    and "descend body args = Inr (JNumber lit)"
  shows "fst (GetJSONInput env (Some r) args) = Inr lit"
  using assms
  by (simp add: GetJSONInput_def Decode_def ReadAll_def Let_def)

lemma C1_addSSHKey:
  assumes "session2user env (Cookies r) = Inr (True, uid)"
    and "IsUserEnabled env (QueryByUserID uid)"
    and "fault (Body r) = None"
    and "field env r ''assertion'' \<noteq> []" and "field env r ''title'' \<noteq> []"
    and "echoedExtensions env (field env r ''assertion'')
           \<noteq> txAuthSimple (''Add SSH key named: '' @ field env r ''title'')"
  shows "rejected (addSSHKey env (newState r))"
proof -
  have c: "fst (checkWebauthnAssertion env s q
             (txAuthSimple (''Add SSH key named: '' @ fst (FormValue (parseForm env) r ''title'')))
             (fst (FormValue (parseForm env) r ''assertion''))) \<noteq> None" for s q
    using check_mismatch [OF assms(6)] by (simp add: field_def)
  show ?thesis
    using assms(1-5) c
    by (simp add: addSSHKey_def userIDFromSession_ok NewRequestRefiller_nofault case_prod_beta
          Let_def rejected_def field_def forwarded_append del: not_None_eq split: option.splits)
qed

lemma C1_deleteSSHKey:
  assumes "session2user env (Cookies r) = Inr (True, uid)"
    and "IsUserEnabled env (QueryByUserID uid)"
    and "fault (Body r) = None"
    and "field env r ''assertion'' \<noteq> []"
    and "ParseInt (field env r ''id'') = Inr sshKeyID"
    and "sshKeyFromSSHKeyID env sshKeyID = Inr sshKeyName"
    and "echoedExtensions env (field env r ''assertion'')
           \<noteq> txAuthSimple (''Delete SSH key named: '' @ sshKeyName)"
  shows "rejected (deleteSSHKey env (newState r))"
proof -
  have c: "fst (checkWebauthnAssertion env s q
             (txAuthSimple (''Delete SSH key named: '' @ sshKeyName))
             (fst (FormValue (parseForm env) r ''assertion''))) \<noteq> None" for s q
    using check_mismatch [OF assms(7)] by (simp add: field_def)
  show ?thesis
    using assms(1-6) c
    by (simp add: deleteSSHKey_def userIDFromSession_ok NewRequestRefiller_nofault case_prod_beta
          Let_def rejected_def field_def forwarded_append del: not_None_eq split: option.splits)
qed

lemma C1_finishLogin:
  assumes "fault (Body r) = None"
    and "field env r ''user_name'' \<noteq> []" and "field env r ''assertion'' \<noteq> []"
    and "IsUserEnabled env (QueryByUsername (field env r ''user_name''))"
    and "echoedExtensions env (field env r ''assertion'') \<noteq> None"
  shows "rejected (finishLogin env (newState r))"
proof -
  have c: "fst (checkWebauthnAssertion env s q None
             (fst (FormValue (parseForm env) r ''assertion''))) \<noteq> None" for s q
    using check_mismatch [OF assms(5)] by (simp add: field_def)
  show ?thesis
    using assms(1-4) c
    by (simp add: finishLogin_def NewRequestRefiller_nofault case_prod_beta
          Let_def rejected_def field_def forwarded_append del: not_None_eq split: option.splits)
qed




lemma field_Refill [simp]:
  "Form r \<noteq> None \<Longrightarrow> fst (FormValue parse (Refill rf r) k) = fst (FormValue parse r k)"
  by (auto simp: FormValue_def ParseMultipartForm_def Refill_def split: option.splits)








section \<open>The claims\<close>

text \<open>
  C1. Extension binding. When the extension map echoed by the client differs from the
  expected map \<open>E\<close>, \<open>checkWebauthnAssertion\<close> returns an error, whatever the
  signature check says. Every handler that runs the check with an expected map (the
  disable-webauthn handler and the delete-repository helper of both main files,
  \<open>addSSHKey\<close>, \<open>deleteSSHKey\<close>, and \<open>finishLogin\<close> with the nil map) answers a
  request that reaches the check with an echoed map other than its own with 400;
  nothing is forwarded and no credential record is deleted.
\<close>

theorem C1_extension_mismatch_rejected:
  "(echoedExtensions env a \<noteq> E \<longrightarrow> fst (checkWebauthnAssertion env s q E a) \<noteq> None)
   \<and> (session2user env (Cookies r) = Inr (True, uid)
        \<and> field env r ''assertion'' \<noteq> []
        \<and> GetWebauthnUser env (QueryByUserID uid) = Inr wuser
        \<and> echoedExtensions env (field env r ''assertion'')
             \<noteq> txAuthSimple (''Confirm disable webauthn for '' @ WebAuthnName wuser)
      \<longrightarrow> rejected (disableWebauthn env (newState r))
          \<and> rejected (disableWebauthn_legacy env (newState r)))
   \<and> (session2user env (Cookies r) = Inr (True, uid)
        \<and> IsUserEnabled env (QueryByUserID uid)
        \<and> field env r ''assertion'' \<noteq> []
        \<and> echoedExtensions env (field env r ''assertion'')
             \<noteq> txAuthSimple (''Confirm repository delete: '' @ muxVar r ''username'' @ ''/''
                   @ muxVar r ''reponame'')
      \<longrightarrow> rejected (deleteRepositoryHelper env (newState r))
          \<and> rejected (deleteRepositoryHelper_legacy env (newState r)))
   \<and> (session2user env (Cookies r) = Inr (True, uid)
        \<and> IsUserEnabled env (QueryByUserID uid)
        \<and> fault (Body r) = None
        \<and> field env r ''assertion'' \<noteq> [] \<and> field env r ''title'' \<noteq> []
        \<and> echoedExtensions env (field env r ''assertion'')
             \<noteq> txAuthSimple (''Add SSH key named: '' @ field env r ''title'')
      \<longrightarrow> rejected (addSSHKey env (newState r)))
   \<and> (session2user env (Cookies r) = Inr (True, uid)
        \<and> IsUserEnabled env (QueryByUserID uid)
        \<and> fault (Body r) = None
        \<and> field env r ''assertion'' \<noteq> []
        \<and> ParseInt (field env r ''id'') = Inr sshKeyID
        \<and> sshKeyFromSSHKeyID env sshKeyID = Inr sshKeyName
        \<and> echoedExtensions env (field env r ''assertion'')
             \<noteq> txAuthSimple (''Delete SSH key named: '' @ sshKeyName)
      \<longrightarrow> rejected (deleteSSHKey env (newState r)))
   \<and> (fault (Body r) = None
        \<and> field env r ''user_name'' \<noteq> [] \<and> field env r ''assertion'' \<noteq> []
        \<and> IsUserEnabled env (QueryByUsername (field env r ''user_name''))
        \<and> echoedExtensions env (field env r ''assertion'') \<noteq> None
      \<longrightarrow> rejected (finishLogin env (newState r)))"
proof (intro conjI impI)
  assume "echoedExtensions env a \<noteq> E"
  then show "fst (checkWebauthnAssertion env s q E a) \<noteq> None" by (rule check_mismatch)
next
  assume h: "session2user env (Cookies r) = Inr (True, uid)
        \<and> field env r ''assertion'' \<noteq> []
        \<and> GetWebauthnUser env (QueryByUserID uid) = Inr wuser
        \<and> echoedExtensions env (field env r ''assertion'')
             \<noteq> txAuthSimple (''Confirm disable webauthn for '' @ WebAuthnName wuser)"
  show "rejected (disableWebauthn env (newState r))"
    using h by (intro C1_disable [where uid = uid and wuser = wuser]) simp_all
  show "rejected (disableWebauthn_legacy env (newState r))"
    using h by (intro C1_disable_legacy [where uid = uid and wuser = wuser]) simp_all
next
  assume h: "session2user env (Cookies r) = Inr (True, uid)
        \<and> IsUserEnabled env (QueryByUserID uid)
        \<and> field env r ''assertion'' \<noteq> []
        \<and> echoedExtensions env (field env r ''assertion'')
             \<noteq> txAuthSimple (''Confirm repository delete: '' @ muxVar r ''username'' @ ''/''
                   @ muxVar r ''reponame'')"
  show "rejected (deleteRepositoryHelper env (newState r))"
    using h by (intro C1_delete [where uid = uid]) simp_all
  show "rejected (deleteRepositoryHelper_legacy env (newState r))"
    using h by (intro C1_delete_legacy [where uid = uid]) simp_all
next
  assume h: "session2user env (Cookies r) = Inr (True, uid)
        \<and> IsUserEnabled env (QueryByUserID uid)
        \<and> fault (Body r) = None
        \<and> field env r ''assertion'' \<noteq> [] \<and> field env r ''title'' \<noteq> []
        \<and> echoedExtensions env (field env r ''assertion'')
             \<noteq> txAuthSimple (''Add SSH key named: '' @ field env r ''title'')"
  show "rejected (addSSHKey env (newState r))"
    using h by (intro C1_addSSHKey [where uid = uid]) simp_all
next
  assume h: "session2user env (Cookies r) = Inr (True, uid)
        \<and> IsUserEnabled env (QueryByUserID uid)
        \<and> fault (Body r) = None
        \<and> field env r ''assertion'' \<noteq> []
        \<and> ParseInt (field env r ''id'') = Inr sshKeyID
        \<and> sshKeyFromSSHKeyID env sshKeyID = Inr sshKeyName
        \<and> echoedExtensions env (field env r ''assertion'')
             \<noteq> txAuthSimple (''Delete SSH key named: '' @ sshKeyName)"
  show "rejected (deleteSSHKey env (newState r))"
    using h
    by (intro C1_deleteSSHKey [where uid = uid and sshKeyID = sshKeyID and sshKeyName = sshKeyName])
       simp_all
next
  assume h: "fault (Body r) = None
        \<and> field env r ''user_name'' \<noteq> [] \<and> field env r ''assertion'' \<noteq> []
        \<and> IsUserEnabled env (QueryByUsername (field env r ''user_name''))
        \<and> echoedExtensions env (field env r ''assertion'') \<noteq> None"
  show "rejected (finishLogin env (newState r))"
    using h by (intro C1_finishLogin) simp_all
qed

theorem C1_witness:
  "echoedExtensions demoEnv ''A1'' \<noteq> txAuthSimple ''Confirm repository delete: alice/repo2''
   \<and> verifyAssertion demoEnv \<lparr>webauthnID = 7, webauthnName = ''alice''\<rparr> demoSession ''A1''
        = Inr ''credential-1''
   \<and> fst (checkWebauthnAssertion demoEnv (newState (demoRequest ''assertion=A1''))
            (QueryByUserID 7) (txAuthSimple ''Confirm repository delete: alice/repo2'') ''A1'') \<noteq> None
   \<and> rejected (disableWebauthn demoEnv (newState (demoRequest ''assertion=A1'')))
   \<and> rejected (disableWebauthn_legacy demoEnv (newState (demoRequest ''assertion=A1'')))
   \<and> rejected (deleteRepositoryHelper demoEnv (newState (demoRequest ''assertion=A1'')))
   \<and> rejected (deleteRepositoryHelper_legacy demoEnv (newState (demoRequest ''assertion=A1'')))
   \<and> rejected (addSSHKey demoEnv (newState (demoRequest ''assertion=A1&title=laptop'')))
   \<and> rejected (deleteSSHKey demoEnv (newState (demoRequest ''assertion=A1&id=5'')))
   \<and> rejected (finishLogin demoEnv (newState (demoRequest ''user_name=alice&assertion=A1'')))"
proof -
  let ?r = "demoRequest ''assertion=A1''"
  let ?k = "demoRequest ''assertion=A1&title=laptop''"
  let ?d = "demoRequest ''assertion=A1&id=5''"
  let ?l = "demoRequest ''user_name=alice&assertion=A1''"
  let ?alice = "\<lparr>webauthnID = 7, webauthnName = ''alice''\<rparr>"
  have a: "field demoEnv ?r ''assertion'' = ''A1''" by (simp add: demo_defs)
  have u: "session2user demoEnv c = Inr (True, 7)" for c by (simp add: demoEnv_def)
  have en: "IsUserEnabled demoEnv q" for q by (simp add: demoEnv_def)
  have g: "GetWebauthnUser demoEnv (QueryByUserID 7) = Inr ?alice" by (simp add: demoEnv_def)
  have v: "verifyAssertion demoEnv ?alice demoSession ''A1'' = Inr ''credential-1''"
    by (simp add: demoEnv_def)
  have echo: "echoedExtensions demoEnv ''A1'' = txAuthSimple ''Confirm repository delete: alice/repo1''"
    by (simp add: demoEnv_def)
  have m1: "echoedExtensions demoEnv ''A1'' \<noteq> txAuthSimple ''Confirm repository delete: alice/repo2''"
    by (simp add: echo txAuthSimple_inject)
  have m2: "echoedExtensions demoEnv ''A1''
              \<noteq> txAuthSimple (''Confirm disable webauthn for '' @ WebAuthnName ?alice)"
    by (simp add: echo txAuthSimple_inject WebAuthnName_def)
  have m3: "echoedExtensions demoEnv ''A1''
              \<noteq> txAuthSimple (''Confirm repository delete: '' @ muxVar ?r ''username'' @ ''/''
                    @ muxVar ?r ''reponame'')"
    by (simp add: echo txAuthSimple_inject muxVar_def demoRequest_def)
  have fk: "field demoEnv ?k ''assertion'' = ''A1''" "field demoEnv ?k ''title'' = ''laptop''"
    "fault (Body ?k) = None"
    by (simp_all add: demo_defs)
  have m4: "echoedExtensions demoEnv ''A1'' \<noteq> txAuthSimple (''Add SSH key named: '' @ ''laptop'')"
    by (simp add: echo txAuthSimple_inject)
  have fd: "field demoEnv ?d ''assertion'' = ''A1''" "field demoEnv ?d ''id'' = ''5''"
    "fault (Body ?d) = None"
    by (simp_all add: demo_defs)
  have p: "ParseInt ''5'' = Inr 5"
    by (simp add: ParseInt_def isDigit_def digitVal_def maxUint64_def Let_def)
  have k: "sshKeyFromSSHKeyID demoEnv 5 = Inr ''laptop''" by (simp add: demoEnv_def)
  have m5: "echoedExtensions demoEnv ''A1'' \<noteq> txAuthSimple (''Delete SSH key named: '' @ ''laptop'')"
    by (simp add: echo txAuthSimple_inject)
  have fl: "field demoEnv ?l ''assertion'' = ''A1''" "field demoEnv ?l ''user_name'' = ''alice''"
    "fault (Body ?l) = None"
    by (simp_all add: demo_defs)
  have m6: "echoedExtensions demoEnv ''A1'' \<noteq> None"
    by (simp add: echo txAuthSimple_def)
  note t = C1_extension_mismatch_rejected [where env = demoEnv and r = ?r and uid = 7
      and wuser = ?alice and a = "''A1''" and s = "newState ?r" and q = "QueryByUserID 7"
      and E = "txAuthSimple ''Confirm repository delete: alice/repo2''"]
  note tk = C1_extension_mismatch_rejected [where env = demoEnv and r = ?k and uid = 7]
  note td = C1_extension_mismatch_rejected [where env = demoEnv and r = ?d and uid = 7
      and sshKeyID = 5 and sshKeyName = "''laptop''"]
  note tl = C1_extension_mismatch_rejected [where env = demoEnv and r = ?l]
  have 1: "rejected (addSSHKey demoEnv (newState ?k))" using tk u en fk m4 by simp
  have 2: "rejected (deleteSSHKey demoEnv (newState ?d))" using td u en fd p k m5 by simp
  have 3: "rejected (finishLogin demoEnv (newState ?l))" using tl en fl m6 by simp
  show ?thesis using t a u en g v m1 m2 m3 1 2 3 by simp
qed






text \<open>
  C4. The form, URL and default accessors go through \<open>getInput_WithErr_Helper\<close>, which
  returns the recorded error first. \<open>GetContext_WithErr\<close> does not look at the error
  slot: after a failed form lookup a URL lookup returns the first error, but a context
  lookup runs its getter, returns the getter's value, and a failing getter replaces
  the first error.
\<close>

theorem C4_context_lookup_after_error:
  "err (demoExtended ''user=alice'') = None
   \<and> fst (GetFormInput_WithErr demoEnv (demoExtended ''user=alice'') [''title''])
        = Inl (Errorf ''Invalid form-data parameters'')
   \<and> err demoFailed = Some (Errorf ''Invalid form-data parameters'')
   \<and> fst (GetURLInput_WithErr demoFailed [''username''])
        = Inl (Errorf ''Invalid form-data parameters'')
   \<and> fst (GetContext_WithErr demoFailed ''ssh_key'' []) = Inr (JString ''laptop'')
   \<and> fst (GetContext_WithErr demoFailed ''broken'' []) = Inl (ExternalError ''backend unreachable'')
   \<and> err (snd (GetContext_WithErr demoFailed ''broken'' [])) = Some (ExternalError ''backend unreachable'')"
proof -
  have e0: "err (demoExtended ''user=alice'') = None" by (simp add: demoExtended_def)
  have first: "GetFormInput demoEnv (Some (demoExtended ''user=alice'')) [''title'']
      = (Inl (Errorf ''Invalid form-data parameters''),
         Some ((demoExtended ''user=alice'')
            \<lparr>httpRequest := snd (FormValue plainQuery (demoRequest ''user=alice'') ''title'')\<rparr>))"
    by (simp add: GetFormInput_def demoExtended_def demo_defs)
  have failed: "demoFailed = (demoExtended ''user=alice'')
            \<lparr>httpRequest := snd (FormValue plainQuery (demoRequest ''user=alice'') ''title''),
             err := Some (Errorf ''Invalid form-data parameters'')\<rparr>"
    using e0 first
    by (simp add: demoFailed_def GetFormInput_WithErr_def getInput_WithErr_Helper_def)
  have res: "fst (GetFormInput_WithErr demoEnv (demoExtended ''user=alice'') [''title''])
        = Inl (Errorf ''Invalid form-data parameters'')"
    using e0 first by (simp add: GetFormInput_WithErr_def getInput_WithErr_Helper_def)
  have g: "contextGetters demoFailed = demoContextGetters"
    by (simp add: failed demoExtended_def)
  show ?thesis
    using e0 res g
    by (simp add: failed GetURLInput_WithErr_def getInput_WithErr_Helper_def GetContext_WithErr_def
          demoContextGetters_def)
qed

text \<open>
  C5. Whatever \<open>finishLogin\<close>, \<open>repoSettings\<close>, \<open>addSSHKey\<close> and \<open>deleteSSHKey\<close> (and the
  older \<open>finishLogin\<close> and \<open>repoSettings\<close>) hand to the reverse proxy is read by the
  backend as exactly the bytes the request body held when the handler was called:
  each handler forwards nothing, or once with those bytes.
\<close>

theorem C5_forwarded_body_is_original:
  "(forwarded (trace (finishLogin env (newState r))) = []
      \<or> forwarded (trace (finishLogin env (newState r))) = [pending (Body r)])
   \<and> (forwarded (trace (repoSettings env (newState r))) = []
      \<or> forwarded (trace (repoSettings env (newState r))) = [pending (Body r)])
   \<and> (forwarded (trace (addSSHKey env (newState r))) = []
      \<or> forwarded (trace (addSSHKey env (newState r))) = [pending (Body r)])
   \<and> (forwarded (trace (deleteSSHKey env (newState r))) = []
      \<or> forwarded (trace (deleteSSHKey env (newState r))) = [pending (Body r)])
   \<and> (forwarded (trace (finishLogin_legacy env (newState r))) = []
      \<or> forwarded (trace (finishLogin_legacy env (newState r))) = [pending (Body r)])
   \<and> (forwarded (trace (repoSettings_legacy env (newState r))) = []
      \<or> forwarded (trace (repoSettings_legacy env (newState r))) = [pending (Body r)])"
proof (intro conjI)
  show "forwarded (trace (finishLogin env (newState r))) = []
      \<or> forwarded (trace (finishLogin env (newState r))) = [pending (Body r)]"
    by (rule C5_finishLogin)
  show "forwarded (trace (repoSettings env (newState r))) = []
      \<or> forwarded (trace (repoSettings env (newState r))) = [pending (Body r)]"
    by (rule C5_repoSettings)
  show "forwarded (trace (addSSHKey env (newState r))) = []
      \<or> forwarded (trace (addSSHKey env (newState r))) = [pending (Body r)]"
    by (rule C5_addSSHKey)
  show "forwarded (trace (deleteSSHKey env (newState r))) = []
      \<or> forwarded (trace (deleteSSHKey env (newState r))) = [pending (Body r)]"
    by (rule C5_deleteSSHKey)
  show "forwarded (trace (finishLogin_legacy env (newState r))) = []
      \<or> forwarded (trace (finishLogin_legacy env (newState r))) = [pending (Body r)]"
    by (rule C5_finishLogin_legacy)
  show "forwarded (trace (repoSettings_legacy env (newState r))) = []
      \<or> forwarded (trace (repoSettings_legacy env (newState r))) = [pending (Body r)]"
    by (rule C5_repoSettings_legacy)
qed

theorem C5_witness:
  "forwarded (trace (finishLogin demoEnv (newState (demoRequest ''user_name=alice&assertion=A2''))))
     = [''user_name=alice&assertion=A2'']
   \<and> forwarded (trace (repoSettings demoEnv
        (newState ((demoRequest ''action=delete&assertion=A1'')
           \<lparr>Vars := [''username'' \<mapsto> ''alice'', ''reponame'' \<mapsto> ''repo1'']\<rparr>))))
     = [''action=delete&assertion=A1'']
   \<and> forwarded (trace (repoSettings_legacy demoEnv (newState (demoRequest ''action=rename''))))
     = [''action=rename'']"
proof -
  let ?l = "demoRequest ''user_name=alice&assertion=A2''"
  let ?d = "(demoRequest ''action=delete&assertion=A1'')
           \<lparr>Vars := [''username'' \<mapsto> ''alice'', ''reponame'' \<mapsto> ''repo1'']\<rparr>"
  let ?p = "demoRequest ''action=rename''"
  note evals = userIDFromSession_def checkWebauthnAssertion_def FinishLogin_def
        verifyTxAuthSimple_def DeepEqual_def txAuthSimple_def preamble_def
        newState_def case_prod_beta Let_def demo_defs muxVar_def
        NewRequestRefiller_def Refill_def forwarded_append
        ReverseProxy_ServeHTTP_def ReverseProxy_serve_def
  have n1: "forwarded (trace (finishLogin demoEnv (newState ?l))) \<noteq> []"
    by (simp add: finishLogin_def evals)
  have n2: "forwarded (trace (repoSettings demoEnv (newState ?d))) \<noteq> []"
    by (simp add: repoSettings_def deleteRepositoryHelper_def evals)
  have n3: "forwarded (trace (repoSettings_legacy demoEnv (newState ?p))) \<noteq> []"
    by (simp add: repoSettings_legacy_def evals)
  have b: "pending (Body ?l) = ''user_name=alice&assertion=A2''"
    "pending (Body ?d) = ''action=delete&assertion=A1''" "pending (Body ?p) = ''action=rename''"
    by (simp_all add: demoRequest_def)
  show ?thesis
    using C5_forwarded_body_is_original [of demoEnv ?l]
      C5_forwarded_body_is_original [of demoEnv ?d]
      C5_forwarded_body_is_original [of demoEnv ?p] n1 n2 n3 b
    by simp
qed

text \<open>
  C6. For a host without a proxy, \<open>ServeHTTP\<close> of the firewall makes no outbound call
  and writes the text \<open>403: Host forbidden\<close>, but it never sets a status: the first
  \<open>Write\<close> makes the response a 200.
\<close>

theorem C6_unknown_host_answered_200:
  "NewWebauthnFirewall (\<lambda>target. True) ''https://localhost:8081'' demoTargets = Some demoFirewall
   \<and> fmlookup (ReverseProxyTargetMap demoFirewall) ''evil.example'' = None
   \<and> WebauthnFirewall_ServeHTTP demoEnv demoFirewall
        (newState ((demoRequest ''action=delete'')\<lparr>Host := ''evil.example''\<rparr>))
      = \<lparr>resp = \<lparr>header = Map.empty, status = Some 200,
                 written = [Raw ''403: Host forbidden evil.example'']\<rparr>,
         req = (demoRequest ''action=delete'')\<lparr>Host := ''evil.example''\<rparr>, trace = []\<rparr>"
proof -
  have "fmlookup (reverseProxies demoFirewall) (Host ((demoRequest ''action=delete'')\<lparr>Host := ''evil.example''\<rparr>)) = None"
    by (simp add: demoFirewall_def demoTargets_def)
  from C6_general [OF this, of demoEnv]
  show ?thesis
    by (simp add: NewWebauthnFirewall_def demoFirewall_def demoTargets_def fmpred_iff)
qed




text \<open>
  C8, as amended. A lookup that returns a value returns the string, or the literal
  text of the number, found under the path in the decoded document, and leaves the
  body rewound: a later reader gets the captured bytes. A number under the path is
  always returned as its literal.
\<close>

theorem C8_json_lookup_success:
  "(GetJSONInput env (Some r) args = (Inr v, ropt)
      \<longrightarrow> (\<exists>body. decodeJSON env (pending (Body (httpRequest r))) = Inr body
             \<and> (descend body args = Inr (JString v) \<or> descend body args = Inr (JNumber v)))
          \<and> laterRead ropt = Inr (data (refiller r)))
   \<and> (fault (Body (httpRequest r)) = None \<and> args \<noteq> []
        \<and> decodeJSON env (pending (Body (httpRequest r))) = Inr body
        \<and> descend body args = Inr (JNumber lit)
      \<longrightarrow> fst (GetJSONInput env (Some r) args) = Inr lit
          \<and> laterRead (snd (GetJSONInput env (Some r) args)) = Inr (data (refiller r)))"
proof (intro conjI impI)
  assume h: "GetJSONInput env (Some r) args = (Inr v, ropt)"
  show "\<exists>body. decodeJSON env (pending (Body (httpRequest r))) = Inr body
             \<and> (descend body args = Inr (JString v) \<or> descend body args = Inr (JNumber v))"
    using h by (rule C8_general(1))
  show "laterRead ropt = Inr (data (refiller r))"
    using h by (rule C8_general(2))
next
  assume h: "fault (Body (httpRequest r)) = None \<and> args \<noteq> []
        \<and> decodeJSON env (pending (Body (httpRequest r))) = Inr body
        \<and> descend body args = Inr (JNumber lit)"
  then have res: "fst (GetJSONInput env (Some r) args) = Inr lit"
    by (intro C8_number [where body = body]) simp_all
  then show "fst (GetJSONInput env (Some r) args) = Inr lit" .
  from res have "GetJSONInput env (Some r) args = (Inr lit, snd (GetJSONInput env (Some r) args))"
    by (metis prod.collapse)
  then show "laterRead (snd (GetJSONInput env (Some r) args)) = Inr (data (refiller r))"
    by (rule C8_general(2))
qed

theorem C8_witness:
  "GetJSONInput demoEnv (Some (demoExtended ''{\"key\":{\"id\":9007199254740993}}'')) [''key'', ''id'']
     = (Inr ''9007199254740993'',
        Some (ExtendedRequest_Refill ((demoExtended ''{\"key\":{\"id\":9007199254740993}}'')
          \<lparr>httpRequest := (demoRequest ''{\"key\":{\"id\":9007199254740993}}'')
               \<lparr>Body := \<lparr>pending = [], fault = None\<rparr>\<rparr>\<rparr>)))
   \<and> laterRead (snd (GetJSONInput demoEnv
         (Some (demoExtended ''{\"key\":{\"id\":9007199254740993}}'')) [''key'', ''id'']))
     = Inr ''{\"key\":{\"id\":9007199254740993}}''
   \<and> fst (getInputInt64_WithErr_Helper (GetJSONInput demoEnv)
         (demoExtended ''{\"key\":{\"id\":9007199254740993}}'') [''key'', ''id''])
     = Inr 9007199254740993"
proof -
  let ?doc = "''{\"key\":{\"id\":9007199254740993}}''"
  let ?r = "demoExtended ?doc"
  let ?body = "JObject (fmupd ''key'' (JObject (fmupd ''id'' (JNumber ''9007199254740993'') fmempty)) fmempty)"
  have g: "GetJSONInput demoEnv (Some ?r) [''key'', ''id'']
     = (Inr ''9007199254740993'',
        Some (ExtendedRequest_Refill (?r\<lparr>httpRequest := (demoRequest ?doc)
               \<lparr>Body := \<lparr>pending = [], fault = None\<rparr>\<rparr>\<rparr>)))"
    by (simp add: GetJSONInput_def Decode_def ReadAll_def demoExtended_def demoRequest_def
         demoEnv_def demoJSON_def NewReader_def Let_def)
  have d: "data (refiller ?r) = ?doc" by (simp add: demoExtended_def)
  have e: "err ?r = None" by (simp add: demoExtended_def)
  have p: "ParseInt ''9007199254740993'' = Inr 9007199254740993"
    by (simp add: ParseInt_def isDigit_def digitVal_def maxUint64_def Let_def)
  have i: "fst (getInputInt64_WithErr_Helper (GetJSONInput demoEnv) ?r [''key'', ''id''])
     = Inr 9007199254740993"
    using g e p by (simp add: getInputInt64_WithErr_Helper_def getInput_WithErr_Helper_def)
  note t = C8_json_lookup_success [where env = demoEnv and r = ?r and args = "[''key'', ''id'']"
      and v = "''9007199254740993''" and lit = "''9007199254740993''" and body = ?body
      and ropt = "snd (GetJSONInput demoEnv (Some ?r) [''key'', ''id''])"]
  have "laterRead (snd (GetJSONInput demoEnv (Some ?r) [''key'', ''id''])) = Inr ?doc"
    using t g d by simp
  then show ?thesis using g i by simp
qed

text \<open>
  Against C8 as stated: a lookup that fails (here the leaf is a boolean) returns before
  the rewind, and a later reader finds the body consumed.
\<close>

theorem C8_counterexample:
  "fst (GetJSONInput demoEnv (Some (demoExtended ''{\"a\":true}'')) [''a''])
     = Inl (Errorf ''JSON parse fail. Unable to cast result to string: %[1]v (%[1]T)'')
   \<and> laterRead (snd (GetJSONInput demoEnv (Some (demoExtended ''{\"a\":true}'')) [''a''])) = Inr []
   \<and> data (refiller (demoExtended ''{\"a\":true}'')) = ''{\"a\":true}''"
  by (simp add: GetJSONInput_def Decode_def ReadAll_def laterRead_def demoExtended_def demoRequest_def
       demoEnv_def demoJSON_def NewReader_def Let_def)

text \<open>
  C9. After a successful \<open>NewRequestRefiller\<close>, the captured data are the bytes the
  body held; reading the body after construction followed by any number \<open>n\<close> of
  \<open>Refill\<close> calls (zero included) gives exactly those bytes; so does reading it
  after a \<open>Refill\<close> that follows any reads, form lookups and rewinds; and \<open>Refill\<close>
  is idempotent.
\<close>

theorem C9_refill_any_number_of_times:
  assumes "NewRequestRefiller r = (Inr rf, r1)"
  shows "data rf = pending (Body r)
       \<and> fst (ReadAll (Body ((Refill rf ^^ n) r1))) = Inr (pending (Body r))
       \<and> fst (ReadAll (Body (Refill rf (run_ops parse rf ops r1)))) = Inr (pending (Body r))
       \<and> Refill rf (Refill rf r1) = Refill rf r1"
proof -
  have d: "data rf = pending (Body r)" and r1_eq: "r1 = Refill rf r1"
    using NewRequestRefiller_ok [OF assms] by simp_all
  have "Body ((Refill rf ^^ n) (Refill rf r1)) = NewReader (data rf)"
    by (rule Refill_funpow)
  with r1_eq have "Body ((Refill rf ^^ n) r1) = NewReader (data rf)" by simp
  moreover have "Body (Refill rf (run_ops parse rf ops r1)) = NewReader (data rf)"
    by (simp add: Refill_def)
  ultimately show ?thesis using d by (simp add: ReadAll_NewReader Refill_idem)
qed

theorem C9_witness:
  "NewRequestRefiller \<lparr>Method = ''POST'', Host = ''localhost:8081'', Cookies = [],
        Vars = Map.empty, Form = None, Body = NewReader ''user_name=alice''\<rparr>
     = (Inr \<lparr>data = ''user_name=alice''\<rparr>,
        \<lparr>Method = ''POST'', Host = ''localhost:8081'', Cookies = [],
         Vars = Map.empty, Form = None, Body = NewReader ''user_name=alice''\<rparr>)
   \<and> fst (ReadAll (Body ((Refill \<lparr>data = ''user_name=alice''\<rparr> ^^ 3)
        \<lparr>Method = ''POST'', Host = ''localhost:8081'', Cookies = [],
         Vars = Map.empty, Form = None, Body = NewReader ''user_name=alice''\<rparr>)))
     = Inr ''user_name=alice''"
proof -
  let ?r = "\<lparr>Method = ''POST'', Host = ''localhost:8081'', Cookies = [],
        Vars = Map.empty, Form = None, Body = NewReader ''user_name=alice''\<rparr>"
  have h: "NewRequestRefiller ?r = (Inr \<lparr>data = ''user_name=alice''\<rparr>, ?r)"
    by (simp add: NewRequestRefiller_def ReadAll_def NewReader_def Refill_def)
  show ?thesis
    using h C9_refill_any_number_of_times [OF h, of 3]
    by (simp add: NewReader_def)
qed




section \<open>Further properties\<close>

text \<open>
  The accessors built on \<open>getInput_WithErr_Helper\<close> are sticky: with an error in the
  slot, the string and the integer helper return that error and leave the request as
  it is, whatever getter they are given; and a call that fails leaves its error in
  the slot, so that every later call through the helpers returns it.
\<close>

theorem accessor_error_is_sticky:
  "(err r = Some e \<longrightarrow>
      getInput_WithErr_Helper getInputFn r args = (Inl e, r)
      \<and> getInputInt64_WithErr_Helper getInputFn r args = (Inl e, r))
   \<and> (getInput_WithErr_Helper getInputFn r args = (Inl e, r') \<longrightarrow>
      err r' = Some e
      \<and> getInput_WithErr_Helper getInputFn' r' args' = (Inl e, r')
      \<and> getInputInt64_WithErr_Helper getInputFn' r' args' = (Inl e, r'))"
proof (intro conjI impI)
  assume h: "err r = Some e"
  then show "getInput_WithErr_Helper getInputFn r args = (Inl e, r)" by (rule sticky_helper)
  then show "getInputInt64_WithErr_Helper getInputFn r args = (Inl e, r)"
    by (simp add: getInputInt64_WithErr_Helper_def)
next
  assume h: "getInput_WithErr_Helper getInputFn r args = (Inl e, r')"
  then show e: "err r' = Some e" by (rule helper_sets_err)
  then show s: "getInput_WithErr_Helper getInputFn' r' args' = (Inl e, r')" by (rule sticky_helper)
  then show "getInputInt64_WithErr_Helper getInputFn' r' args' = (Inl e, r')"
    by (simp add: getInputInt64_WithErr_Helper_def)
qed

theorem accessor_error_is_sticky_witness:
  "GetFormInput_WithErr demoEnv (demoExtended ''user=alice'') [''title'']
     = (Inl (Errorf ''Invalid form-data parameters''), demoFailed)
   \<and> err demoFailed = Some (Errorf ''Invalid form-data parameters'')
   \<and> Get_WithErr demoEnv demoFailed [''key'', ''id'']
     = (Inl (Errorf ''Invalid form-data parameters''), demoFailed)
   \<and> GetInt64_WithErr demoEnv demoFailed [''key'', ''id'']
     = (Inl (Errorf ''Invalid form-data parameters''), demoFailed)"
proof -
  let ?e = "Errorf ''Invalid form-data parameters''"
  have "fst (getInput_WithErr_Helper (GetFormInput demoEnv) (demoExtended ''user=alice'') [''title''])
          = Inl ?e"
    by (simp add: getInput_WithErr_Helper_def GetFormInput_def demoExtended_def demo_defs)
  then have first: "getInput_WithErr_Helper (GetFormInput demoEnv) (demoExtended ''user=alice'') [''title'']
          = (Inl ?e, demoFailed)"
    by (simp add: demoFailed_def GetFormInput_WithErr_def prod_eq_iff)
  note t = accessor_error_is_sticky [where r = "demoExtended ''user=alice''" and r' = demoFailed
      and e = ?e and getInputFn = "GetFormInput demoEnv" and args = "[''title'']"
      and getInputFn' = "getInputDefault_fn demoEnv demoFailed" and args' = "[''key'', ''id'']"]
  show ?thesis
    using t first by (simp add: GetFormInput_WithErr_def Get_WithErr_def GetInt64_WithErr_def)
qed

text \<open>
  The verifier of \<open>checkWebauthnAssertion\<close> compares by structural equality: it accepts
  the echoed map of the same transaction string and fails on that of any other.
\<close>

theorem distinct_transactions_fail_verification:
  "(DeepEqual x y \<longleftrightarrow> x = y)
   \<and> (S1 \<noteq> S2 \<longrightarrow>
        verifyTxAuthSimple (txAuthSimple S1) sessionExtensions (txAuthSimple S2) \<noteq> None
        \<and> verifyTxAuthSimple (txAuthSimple S1) sessionExtensions (txAuthSimple S1) = None)"
proof (intro conjI impI)
  show "DeepEqual x y \<longleftrightarrow> x = y" by (rule DeepEqual_iff)
next
  assume "S1 \<noteq> S2"
  then show "verifyTxAuthSimple (txAuthSimple S1) sessionExtensions (txAuthSimple S2) \<noteq> None"
    by (simp add: verifyTxAuthSimple_def DeepEqual_iff txAuthSimple_inject)
next
  show "verifyTxAuthSimple (txAuthSimple S1) sessionExtensions (txAuthSimple S1) = None"
    by (simp add: verifyTxAuthSimple_def DeepEqual_iff)
qed

theorem distinct_transactions_witness:
  "''Confirm repository delete: alice/repo1'' \<noteq> ''Confirm repository delete: alice/repo2''
   \<and> verifyTxAuthSimple (txAuthSimple ''Confirm repository delete: alice/repo1'') None
        (txAuthSimple ''Confirm repository delete: alice/repo2'')
       = Some (Errorf ''Extensions verification failed: Expected %v, Received %v'')
   \<and> verifyTxAuthSimple (txAuthSimple ''Confirm repository delete: alice/repo1'') None
        (txAuthSimple ''Confirm repository delete: alice/repo1'') = None"
proof -
  have ne: "''Confirm repository delete: alice/repo1'' \<noteq> ''Confirm repository delete: alice/repo2''"
    by simp
  note t = distinct_transactions_fail_verification
      [where ?S1.0 = "''Confirm repository delete: alice/repo1''"
         and ?S2.0 = "''Confirm repository delete: alice/repo2''" and sessionExtensions = None]
  have "verifyTxAuthSimple (txAuthSimple ''Confirm repository delete: alice/repo1'') None
        (txAuthSimple ''Confirm repository delete: alice/repo2'') \<noteq> None"
    using t ne by blast
  then have "verifyTxAuthSimple (txAuthSimple ''Confirm repository delete: alice/repo1'') None
        (txAuthSimple ''Confirm repository delete: alice/repo2'')
       = Some (Errorf ''Extensions verification failed: Expected %v, Received %v'')"
    by (simp add: verifyTxAuthSimple_def split: if_splits)
  then show ?thesis using t ne by simp
qed

end
